theory Spec2Isabelle
  imports Main "HOL-Library.Char_ord" "HOL-Library.List_Lexorder" "HOL-Library.AList"
begin

section \<open>TidyTuesdayPy: a model of \<^verbatim>\<open>src/pytytuesday.py\<close>\<close>

text \<open>
  The client class \<^verbatim>\<open>TidyTuesdayPy\<close> is embedded method by method. Python values that
  come from JSON documents are a datatype, exceptions are values of a sum type, every
  \<^verbatim>\<open>print\<close> and every HTTP request is an event appended to a log, and the instance
  attribute \<^verbatim>\<open>rate_limit_remaining\<close> is a field of the state that the methods thread.

  Strings are lists of code points below 256 (\<^typ>\<open>string\<close>); on that range the
  character classes of Python (\<^verbatim>\<open>\d\<close>, \<^verbatim>\<open>\s\<close>, \<^verbatim>\<open>str.lower\<close>) are the ones
  written below.
\<close>

subsection \<open>Exceptions and Python values\<close>

datatype exn =
    KeyError | TypeError | ValueError | IndexError | AttributeError | OverflowError
  | RequestException | JSONDecodeError | ParserError | OSError

text \<open>Values as \<^verbatim>\<open>json.loads\<close> builds them (numbers restricted to integers).\<close>

datatype pyval =
    PNone | PBool bool | PInt int | PStr string | PList "pyval list"
  | PDict "(string \<times> pyval) list"

definition bindE :: "exn + 'a \<Rightarrow> ('a \<Rightarrow> exn + 'b) \<Rightarrow> exn + 'b" where
  "bindE r f = (case r of Inl e \<Rightarrow> Inl e | Inr x \<Rightarrow> f x)"

text \<open>\<^verbatim>\<open>v[k]\<close> with a string key: only a dict can be subscripted by a string.\<close>

fun getitem :: "pyval \<Rightarrow> string \<Rightarrow> exn + pyval" where
  "getitem (PDict kvs) k = (case map_of kvs k of Some v \<Rightarrow> Inr v | None \<Rightarrow> Inl KeyError)"
| "getitem _ k = Inl TypeError"

text \<open>\<^verbatim>\<open>for x in v\<close>: a list gives its elements, a dict its keys, a string its
  characters; the other values are not iterable.\<close>

fun py_iter :: "pyval \<Rightarrow> exn + pyval list" where
  "py_iter (PList xs) = Inr xs"
| "py_iter (PDict kvs) = Inr (map (\<lambda>kv. PStr (fst kv)) kvs)"
| "py_iter (PStr s) = Inr (map (\<lambda>c. PStr [c]) s)"
| "py_iter _ = Inl TypeError"

fun py_len :: "pyval \<Rightarrow> exn + int" where
  "py_len (PList xs) = Inr (int (length xs))"
| "py_len (PDict kvs) = Inr (int (length kvs))"
| "py_len (PStr s) = Inr (int (length s))"
| "py_len _ = Inl TypeError"

text \<open>\<^verbatim>\<open>v[i]\<close> with an index \<open>0 \<le> i < len(v)\<close>; a dict has no integer keys here.\<close>

fun py_index :: "pyval \<Rightarrow> nat \<Rightarrow> exn + pyval" where
  "py_index (PList xs) i = (if i < length xs then Inr (xs ! i) else Inl IndexError)"
| "py_index (PStr s) i = (if i < length s then Inr (PStr [s ! i]) else Inl IndexError)"
| "py_index (PDict kvs) i = Inl KeyError"
| "py_index _ i = Inl TypeError"

fun truthy :: "pyval \<Rightarrow> bool" where
  "truthy PNone = False"
| "truthy (PBool b) = b"
| "truthy (PInt n) = (n \<noteq> 0)"
| "truthy (PStr s) = (s \<noteq> [])"
| "truthy (PList xs) = (xs \<noteq> [])"
| "truthy (PDict kvs) = (kvs \<noteq> [])"

text \<open>\<^verbatim>\<open>v < k\<close> for an integer \<open>k\<close>: defined on numbers (a bool is an int), a
  \<^verbatim>\<open>TypeError\<close> on everything else.\<close>

fun py_lt_int :: "pyval \<Rightarrow> int \<Rightarrow> exn + bool" where
  "py_lt_int (PInt n) k = Inr (n < k)"
| "py_lt_int (PBool b) k = Inr ((if b then 1 else 0) < k)"
| "py_lt_int _ k = Inl TypeError"

subsection \<open>Strings\<close>

definition digit_char :: "nat \<Rightarrow> char" where
  "digit_char n = ''0123456789'' ! n"

fun digits_of_nat :: "nat \<Rightarrow> string" where
  "digits_of_nat n =
     (if n < 10 then [digit_char n] else digits_of_nat (n div 10) @ [digit_char (n mod 10)])"

text \<open>\<^verbatim>\<open>str(i)\<close> for an integer.\<close>

definition str_of_int :: "int \<Rightarrow> string" where
  "str_of_int i = (if i < 0 then CHR ''-'' # digits_of_nat (nat (- i)) else digits_of_nat (nat i))"

definition is_digit :: "char \<Rightarrow> bool" where
  "is_digit c = (c \<in> set ''0123456789'')"

definition digit_val :: "char \<Rightarrow> int" where
  "digit_val c = of_char c - 48"

text \<open>\<^verbatim>\<open>int(s)\<close> on a string of decimal digits.\<close>

definition int_of_digits :: "string \<Rightarrow> int" where
  "int_of_digits s = foldl (\<lambda>a c. 10 * a + digit_val c) 0 s"

text \<open>Unicode whitespace below 256: what \<^verbatim>\<open>\s\<close> matches and \<^verbatim>\<open>str.strip\<close> removes.\<close>

definition is_space :: "char \<Rightarrow> bool" where
  "is_space c = ((of_char c :: nat) \<in> {9, 10, 11, 12, 13, 28, 29, 30, 31, 32, 133, 160})"

definition strip :: "string \<Rightarrow> string" where
  "strip s = rev (dropWhile is_space (rev (dropWhile is_space s)))"

text \<open>\<^verbatim>\<open>str.lower\<close>: the upper-case letters below 256 are A..Z and the Latin-1 letters
  0xC0..0xDE without the multiplication sign 0xD7; each is 32 below its lower-case letter.\<close>

definition lower_char :: "char \<Rightarrow> char" where
  "lower_char c =
     (case map_of (zip ''ABCDEFGHIJKLMNOPQRSTUVWXYZ'' ''abcdefghijklmnopqrstuvwxyz'') c of
        Some l \<Rightarrow> l
      | None \<Rightarrow>
          let n = (of_char c :: nat)
          in if 192 \<le> n \<and> n \<le> 222 \<and> n \<noteq> 215 then char_of (n + 32) else c)"

definition lower :: "string \<Rightarrow> string" where
  "lower s = map lower_char s"

definition startswith :: "string \<Rightarrow> string \<Rightarrow> bool" where
  "startswith s p = (take (length p) s = p)"

definition endswith :: "string \<Rightarrow> string \<Rightarrow> bool" where
  "endswith s p = (length p \<le> length s \<and> drop (length s - length p) s = p)"

text \<open>\<^verbatim>\<open>s.rfind(c)\<close>: the last index of \<open>c\<close>, or \<open>-1\<close>.\<close>

definition rfind :: "string \<Rightarrow> char \<Rightarrow> int" where
  "rfind s c =
     (if c \<in> set s then int (length s) - 1 - int (length (takeWhile (\<lambda>x. x \<noteq> c) (rev s))) else - 1)"

text \<open>
  \<^verbatim>\<open>os.path.splitext\<close> (posixpath, \<^verbatim>\<open>genericpath._splitext\<close> with separator \<^verbatim>\<open>/\<close>):
  the extension starts at the last dot of the last path component, unless that component
  has only dots before it. The \<^verbatim>\<open>while\<close> loop that skips leading dots is the search
  for a character other than a dot between the separator and the last dot.
\<close>

definition splitext :: "string \<Rightarrow> string \<times> string" where
  "splitext p =
     (let sepIndex = rfind p (CHR ''/'');
          dotIndex = rfind p (CHR ''.'')
      in if dotIndex > sepIndex \<and>
            list_ex (\<lambda>c. c \<noteq> CHR ''.'')
              (take (nat (dotIndex - (sepIndex + 1))) (drop (nat (sepIndex + 1)) p))
         then (take (nat dotIndex) p, drop (nat dotIndex) p)
         else (p, []))"

subsection \<open>The \<^verbatim>\<open>datetime\<close> module\<close>

text \<open>
  The proleptic Gregorian calendar of CPython's \<^verbatim>\<open>datetime\<close> (\<^verbatim>\<open>Lib/_pydatetime.py\<close>):
  day 1 is 0001-01-01, the last day is 9999-12-31, and arithmetic that leaves this range
  raises \<^verbatim>\<open>OverflowError\<close>.
\<close>

definition MAXORDINAL :: int where
  "MAXORDINAL = 3652059"

definition DAYS_IN_MONTH :: "int list" where
  "DAYS_IN_MONTH = [-1, 31, 28, 31, 30, 31, 30, 31, 31, 30, 31, 30, 31]"

definition DAYS_BEFORE_MONTH :: "int list" where
  "DAYS_BEFORE_MONTH = [-1, 0, 31, 59, 90, 120, 151, 181, 212, 243, 273, 304, 334]"

definition is_leap :: "int \<Rightarrow> bool" where
  "is_leap year = (year mod 4 = 0 \<and> (year mod 100 \<noteq> 0 \<or> year mod 400 = 0))"

definition days_before_year :: "int \<Rightarrow> int" where
  "days_before_year year = (let y = year - 1 in y * 365 + y div 4 - y div 100 + y div 400)"

definition days_in_month :: "int \<Rightarrow> int \<Rightarrow> int" where
  "days_in_month year month =
     (if month = 2 \<and> is_leap year then 29 else DAYS_IN_MONTH ! nat month)"

definition days_before_month :: "int \<Rightarrow> int \<Rightarrow> int" where
  "days_before_month year month =
     DAYS_BEFORE_MONTH ! nat month + (if month > 2 \<and> is_leap year then 1 else 0)"

definition ymd2ord :: "int \<Rightarrow> int \<Rightarrow> int \<Rightarrow> int" where
  "ymd2ord year month day = days_before_year year + days_before_month year month + day"

definition ord2ymd :: "int \<Rightarrow> int \<times> int \<times> int" where
  "ord2ymd n0 =
     (let n = n0 - 1;
          n400 = n div 146097; n = n mod 146097;
          year = n400 * 400 + 1;
          n100 = n div 36524; n = n mod 36524;
          n4 = n div 1461; n = n mod 1461;
          n1 = n div 365; n = n mod 365;
          year = year + n100 * 100 + n4 * 4 + n1
      in if n1 = 4 \<or> n100 = 4 then (year - 1, 12, 31)
         else
           let leapyear = (n1 = 3 \<and> (n4 \<noteq> 24 \<or> n100 = 3));
               month0 = (n + 50) div 32;
               preceding0 =
                 DAYS_BEFORE_MONTH ! nat month0 + (if month0 > 2 \<and> leapyear then 1 else 0);
               month = (if preceding0 > n then month0 - 1 else month0);
               preceding =
                 (if preceding0 > n
                  then preceding0 -
                       (DAYS_IN_MONTH ! nat month + (if month = 2 \<and> leapyear then 1 else 0))
                  else preceding0)
           in (year, month, n - preceding + 1))"

record datetime =
  dt_year :: int
  dt_month :: int
  dt_day :: int
  dt_hour :: int
  dt_minute :: int
  dt_second :: int
  dt_microsecond :: int

text \<open>What the constructors of \<^verbatim>\<open>date\<close> and \<^verbatim>\<open>datetime\<close> check.\<close>

definition valid_date :: "int \<Rightarrow> int \<Rightarrow> int \<Rightarrow> bool" where
  "valid_date y m d =
     (1 \<le> y \<and> y \<le> 9999 \<and> 1 \<le> m \<and> m \<le> 12 \<and> 1 \<le> d \<and> d \<le> days_in_month y m)"


definition midnight :: "int \<Rightarrow> int \<Rightarrow> int \<Rightarrow> datetime" where
  "midnight y m d =
     \<lparr>dt_year = y, dt_month = m, dt_day = d,
      dt_hour = 0, dt_minute = 0, dt_second = 0, dt_microsecond = 0\<rparr>"

definition toordinal :: "datetime \<Rightarrow> int" where
  "toordinal t = ymd2ord (dt_year t) (dt_month t) (dt_day t)"

text \<open>\<^verbatim>\<open>weekday()\<close>: Monday is 0, Sunday is 6.\<close>

definition weekday :: "datetime \<Rightarrow> int" where
  "weekday t = (toordinal t + 6) mod 7"

record timedelta =
  td_days :: int
  td_seconds :: int
  td_microseconds :: int

text \<open>The constructor \<^verbatim>\<open>timedelta(days, seconds, microseconds)\<close> normalises its
  arguments: \<open>0 \<le> seconds < 86400\<close> and \<open>0 \<le> microseconds < 1000000\<close>.\<close>

definition mk_timedelta :: "int \<Rightarrow> int \<Rightarrow> int \<Rightarrow> timedelta" where
  "mk_timedelta days seconds microseconds =
     (let s = seconds + microseconds div 1000000;
          us = microseconds mod 1000000
      in \<lparr>td_days = days + s div 86400, td_seconds = s mod 86400, td_microseconds = us\<rparr>)"

text \<open>\<^verbatim>\<open>datetime.__add__\<close>.\<close>

definition datetime_add :: "datetime \<Rightarrow> timedelta \<Rightarrow> exn + datetime" where
  "datetime_add t other =
     (let delta0 = mk_timedelta (toordinal t)
                     (dt_hour t * 3600 + dt_minute t * 60 + dt_second t) (dt_microsecond t);
          delta = mk_timedelta (td_days delta0 + td_days other)
                    (td_seconds delta0 + td_seconds other)
                    (td_microseconds delta0 + td_microseconds other);
          hour = td_seconds delta div 3600;
          rem = td_seconds delta mod 3600;
          minute = rem div 60;
          second = rem mod 60
      in if 0 < td_days delta \<and> td_days delta \<le> MAXORDINAL
         then (case ord2ymd (td_days delta) of (y, m, d) \<Rightarrow>
                 Inr \<lparr>dt_year = y, dt_month = m, dt_day = d, dt_hour = hour,
                      dt_minute = minute, dt_second = second,
                      dt_microsecond = td_microseconds delta\<rparr>)
         else Inl OverflowError)"

text \<open>\<^verbatim>\<open>datetime.__sub__\<close> with a \<^verbatim>\<open>timedelta\<close>: \<^verbatim>\<open>self + -other\<close>.\<close>

definition datetime_sub :: "datetime \<Rightarrow> timedelta \<Rightarrow> exn + datetime" where
  "datetime_sub t other =
     datetime_add t
       (mk_timedelta (- td_days other) (- td_seconds other) (- td_microseconds other))"

text \<open>
  \<^verbatim>\<open>strftime("%Y-%m-%d")\<close>, as documented: the year zero-padded to four digits, month and
  day to two. (C libraries that do not pad \<^verbatim>\<open>%Y\<close> differ for years below 1000.)
\<close>

definition pad2 :: "int \<Rightarrow> string" where
  "pad2 n = [digit_char (nat (n div 10 mod 10)), digit_char (nat (n mod 10))]"

definition pad4 :: "int \<Rightarrow> string" where
  "pad4 n = [digit_char (nat (n div 1000 mod 10)), digit_char (nat (n div 100 mod 10)),
             digit_char (nat (n div 10 mod 10)), digit_char (nat (n mod 10))]"

definition strftime :: "datetime \<Rightarrow> string" where
  "strftime t = pad4 (dt_year t) @ ''-'' @ pad2 (dt_month t) @ ''-'' @ pad2 (dt_day t)"

text \<open>
  \<^verbatim>\<open>strptime(s, "%Y-%m-%d")\<close>. CPython turns the format into the regular expression
  \<^verbatim>\<open>(?P<Y>\d\d\d\d)-(?P<m>1[0-2]|0[1-9]|[1-9])-(?P<d>3[0-1]|[1-2]\d|0[1-9]|[1-9]| [1-9])\<close>,
  matches it at the start of the string and refuses unconverted data after the match.
  Each group is a function from the input to its matches in the order the backtracking
  matcher tries them (the matched text and the rest of the input); the first complete
  match is the one \<^verbatim>\<open>re.match\<close> returns.
\<close>

definition re_Y :: "string \<Rightarrow> (string \<times> string) list" where
  "re_Y s =
     (case s of
        a # b # c # d # rest \<Rightarrow>
          if is_digit a \<and> is_digit b \<and> is_digit c \<and> is_digit d then [([a, b, c, d], rest)] else []
      | _ \<Rightarrow> [])"

definition re_two :: "string \<Rightarrow> string \<Rightarrow> string \<Rightarrow> (string \<times> string) list" where
  "re_two first second s =
     (case s of
        a # b # rest \<Rightarrow> if a \<in> set first \<and> b \<in> set second then [([a, b], rest)] else []
      | _ \<Rightarrow> [])"

definition re_one :: "string \<Rightarrow> string \<Rightarrow> (string \<times> string) list" where
  "re_one first s =
     (case s of a # rest \<Rightarrow> if a \<in> set first then [([a], rest)] else [] | _ \<Rightarrow> [])"

definition re_m :: "string \<Rightarrow> (string \<times> string) list" where
  "re_m s = re_two ''1'' ''012'' s @ re_two ''0'' ''123456789'' s @ re_one ''123456789'' s"

definition re_d :: "string \<Rightarrow> (string \<times> string) list" where
  "re_d s =
     re_two ''3'' ''01'' s @ re_two ''12'' ''0123456789'' s @ re_two ''0'' ''123456789'' s @
     re_one ''123456789'' s @ re_two '' '' ''123456789'' s"

definition re_dash :: "string \<Rightarrow> string list" where
  "re_dash s = (case s of a # rest \<Rightarrow> if a = CHR ''-'' then [rest] else [] | _ \<Rightarrow> [])"

definition re_ymd :: "string \<Rightarrow> (string \<times> string \<times> string \<times> string) list" where
  "re_ymd s =
     concat (map (\<lambda>(Y, s1).
       concat (map (\<lambda>s2.
         concat (map (\<lambda>(m, s3).
           concat (map (\<lambda>s4.
             map (\<lambda>(d, rest). (Y, m, d, rest)) (re_d s4))
           (re_dash s3)))
         (re_m s2)))
       (re_dash s1)))
     (re_Y s))"

definition strptime :: "string \<Rightarrow> exn + datetime" where
  "strptime s =
     (case re_ymd s of
        [] \<Rightarrow> Inl ValueError
      | (Y, m, d, rest) # _ \<Rightarrow>
          if rest \<noteq> [] then Inl ValueError
          else
            let year = int_of_digits Y;
                month = int_of_digits m;
                day = int_of_digits (dropWhile (\<lambda>c. c = CHR '' '') d)
            in if valid_date year month day then Inr (midnight year month day)
               else Inl ValueError)"

subsection \<open>\<^verbatim>\<open>last_tuesday\<close>\<close>

text \<open>
  The argument is absent, a string, or a \<^verbatim>\<open>datetime\<close> object (the branch
  \<^verbatim>\<open>date_obj = date\<close>). The clock is an argument: \<open>utcnow\<close> is what
  \<^verbatim>\<open>datetime.datetime.now(datetime.timezone.utc)\<close> returns. An \<open>Inl\<close> result is an
  exception that leaves the method: it has no \<^verbatim>\<open>try\<close>.
\<close>

datatype date_arg = DateNone | DateStr string | DateObj datetime

definition last_tuesday :: "datetime \<Rightarrow> date_arg \<Rightarrow> exn + string" where
  "last_tuesday utcnow date =
     bindE (case date of
              DateNone \<Rightarrow>
                bindE (datetime_add utcnow (mk_timedelta 0 (- 4 * 3600) 0))
                  (\<lambda>now. Inr (DateStr (strftime now)))
            | _ \<Rightarrow> Inr date)
       (\<lambda>date.
          bindE (case date of DateStr s \<Rightarrow> strptime s | DateObj t \<Rightarrow> Inr t
                 | DateNone \<Rightarrow> Inl AttributeError)
            (\<lambda>date_obj.
               let days_since_tuesday = (weekday date_obj - 1) mod 7
               in bindE (datetime_sub date_obj (mk_timedelta days_since_tuesday 0 0))
                    (\<lambda>last_tues. Inr (strftime last_tues))))"


subsection \<open>Tables and the libraries the client calls\<close>

datatype cell = CInt int | CStr string

text \<open>A \<^verbatim>\<open>pandas.DataFrame\<close>: named columns and rows of cells.\<close>

record table =
  columns :: "string list"
  rows :: "cell list list"

text \<open>\<^verbatim>\<open>pd.DataFrame()\<close>, the value every failing path of \<^verbatim>\<open>tt_download_file\<close> returns.\<close>

definition DataFrame_empty :: table where
  "DataFrame_empty = \<lparr>columns = [], rows = []\<rparr>"

text \<open>
  Library functions the model does not look into, as parameters: the four pandas readers
  (applied to the downloaded bytes, which the client writes to a temporary file first;
  saving and deleting that file is assumed to succeed), the pure string function
  \<^verbatim>\<open>_markdown_to_html\<close> (lines 474-517, a chain of \<^verbatim>\<open>re.sub\<close> calls on its argument),
  and \<^verbatim>\<open>str()\<close> of a list or dict.
\<close>

record lib =
  read_csv :: "string \<Rightarrow> exn + table"
  read_csv_tab :: "string \<Rightarrow> exn + table"
  read_excel :: "string \<Rightarrow> exn + table"
  read_json :: "string \<Rightarrow> exn + table"
  markdown_to_html :: "string \<Rightarrow> string"
  str_of_container :: "pyval \<Rightarrow> string"

text \<open>\<^verbatim>\<open>str(v)\<close>.\<close>

definition py_str :: "lib \<Rightarrow> pyval \<Rightarrow> string" where
  "py_str l v =
     (case v of
        PStr s \<Rightarrow> s
      | PInt i \<Rightarrow> str_of_int i
      | PBool b \<Rightarrow> (if b then ''True'' else ''False'')
      | PNone \<Rightarrow> ''None''
      | _ \<Rightarrow> str_of_container l v)"

subsection \<open>The remote, the log and the instance\<close>

record response =
  status_code :: int
  resp_text :: string
  resp_content :: string
  resp_json :: "exn + pyval"

text \<open>One constructor for each \<^verbatim>\<open>print\<close> statement of the source, with the values
  its f-string formats.\<close>

datatype msg =
    Msg_requests_remaining pyval
  | Msg_rate_limit_low
  | Msg_error_fetching int
  | Msg_available_header
  | Msg_available_rule
  | Msg_year_heading pyval
  | Msg_dataset_indented string string
  | Msg_error exn
  | Msg_error_fetching_year string int
  | Msg_datasets_header string
  | Msg_datasets_rule
  | Msg_dataset_line string string
  | Msg_no_datasets string
  | Msg_week_out_of_range int string
  | Msg_error_fetching_date string int
  | Msg_invalid_data
  | Msg_index_out_of_range int
  | Msg_file_not_found string
  | Msg_downloading pyval
  | Msg_error_downloading_status int
  | Msg_unsupported string
  | Msg_loaded pyval
  | Msg_error_downloading_file exn
  | Msg_warning_not_found string
  | Msg_error_downloading pyval int
  | Msg_error_processing string exn
  | Msg_error_downloading_files exn

text \<open>\<open>RateLimitGet\<close> is the request \<^verbatim>\<open>_update_rate_limit\<close> sends, \<open>HttpGet\<close> any
  other \<^verbatim>\<open>requests.get\<close>.\<close>

datatype event = RateLimitGet | HttpGet string | Print msg

text \<open>
  The remote answers the \<open>n\<close>-th request of a run to a URL with a response or with a
  transport exception; nothing is assumed about how the answers relate.
  \<open>rate_limit_remaining\<close> is the attribute of the instance.
\<close>

record state =
  net :: "nat \<Rightarrow> string \<Rightarrow> exn + response"
  clock :: nat
  log :: "event list"
  rate_limit_remaining :: pyval

type_synonym 'a io = "state \<Rightarrow> (exn + 'a) \<times> state"

definition ret :: "'a \<Rightarrow> 'a io" where
  "ret x = (\<lambda>s. (Inr x, s))"

definition lift :: "exn + 'a \<Rightarrow> 'a io" where
  "lift r = (\<lambda>s. (r, s))"

definition bnd :: "'a io \<Rightarrow> ('a \<Rightarrow> 'b io) \<Rightarrow> 'b io" where
  "bnd m f = (\<lambda>s. case m s of (Inl e, s') \<Rightarrow> (Inl e, s') | (Inr x, s') \<Rightarrow> f x s')"

text \<open>\<^verbatim>\<open>try: m except Exception as e: h e\<close>.\<close>

definition try_except :: "'a io \<Rightarrow> (exn \<Rightarrow> 'a io) \<Rightarrow> 'a io" where
  "try_except m h = (\<lambda>s. case m s of (Inl e, s') \<Rightarrow> h e s' | (Inr x, s') \<Rightarrow> (Inr x, s'))"

definition py_print :: "msg \<Rightarrow> unit io" where
  "py_print m = (\<lambda>s. (Inr (), s\<lparr>log := log s @ [Print m]\<rparr>))"

fun print_all :: "msg list \<Rightarrow> unit io" where
  "print_all [] = ret ()"
| "print_all (m # ms) = bnd (py_print m) (\<lambda>_. print_all ms)"

definition GITHUB_API_URL :: string where
  "GITHUB_API_URL = ''https://api.github.com/repos/rfordatascience/tidytuesday/contents/data''"

definition RAW_GITHUB_URL :: string where
  "RAW_GITHUB_URL = ''https://raw.githubusercontent.com/rfordatascience/tidytuesday/master/data''"

definition RATE_LIMIT_URL :: string where
  "RATE_LIMIT_URL = ''https://api.github.com/rate_limit''"

text \<open>\<^verbatim>\<open>requests.get(url)\<close>. A value that is not a string has no URL scheme: requests
  refuses it before anything is sent.\<close>

definition requests_get :: "pyval \<Rightarrow> response io" where
  "requests_get url =
     (\<lambda>s. case url of
             PStr u \<Rightarrow> (net s (clock s) u, s\<lparr>clock := clock s + 1, log := log s @ [HttpGet u]\<rparr>)
           | _ \<Rightarrow> (Inl RequestException, s))"

definition requests_get_rate_limit :: "response io" where
  "requests_get_rate_limit =
     (\<lambda>s. (net s (clock s) RATE_LIMIT_URL,
            s\<lparr>clock := clock s + 1, log := log s @ [RateLimitGet]\<rparr>))"

definition set_rate_limit_remaining :: "pyval \<Rightarrow> unit io" where
  "set_rate_limit_remaining v = (\<lambda>s. (Inr (), s\<lparr>rate_limit_remaining := v\<rparr>))"

definition get_rate_limit_remaining :: "pyval io" where
  "get_rate_limit_remaining = (\<lambda>s. (Inr (rate_limit_remaining s), s))"

subsection \<open>\<^verbatim>\<open>_update_rate_limit\<close>, \<^verbatim>\<open>rate_limit_check\<close> and the constructor\<close>

definition update_rate_limit :: "unit io" where
  "update_rate_limit =
     try_except
       (bnd requests_get_rate_limit (\<lambda>response.
          if status_code response = 200
          then bnd (lift (resp_json response)) (\<lambda>data.
               bnd (lift (bindE (bindE (getitem data ''resources'') (\<lambda>r. getitem r ''core''))
                            (\<lambda>c. getitem c ''remaining''))) (\<lambda>remaining.
               set_rate_limit_remaining remaining))
          else ret ()))
       (\<lambda>e. set_rate_limit_remaining PNone)"

definition rate_limit_check :: "bool \<Rightarrow> pyval io" where
  "rate_limit_check quiet =
     bnd update_rate_limit (\<lambda>_.
     bnd get_rate_limit_remaining (\<lambda>remaining.
     bnd (if \<not> quiet \<and> remaining \<noteq> PNone then py_print (Msg_requests_remaining remaining)
          else ret ()) (\<lambda>_.
     ret (if remaining \<noteq> PNone then remaining else PInt 0))))"

text \<open>\<^verbatim>\<open>__init__\<close>.\<close>

definition init :: "unit io" where
  "init = bnd (set_rate_limit_remaining PNone) (\<lambda>_. update_rate_limit)"

subsection \<open>\<^verbatim>\<open>tt_datasets\<close>\<close>

record dataset =
  ds_date :: string
  ds_title :: string
  ds_path :: string

text \<open>\<^verbatim>\<open>re.match(r"^\d{4}-\d{2}-\d{2}$", s)\<close>; \<^verbatim>\<open>$\<close> also matches before a final
  newline.\<close>

definition date_pattern :: "string \<Rightarrow> bool" where
  "date_pattern s =
     (length s = 10 \<and> list_all is_digit (take 4 s) \<and> s ! 4 = CHR ''-'' \<and>
      list_all is_digit (take 2 (drop 5 s)) \<and> s ! 7 = CHR ''-'' \<and>
      list_all is_digit (drop 8 s))"

definition is_date_name :: "string \<Rightarrow> bool" where
  "is_date_name s =
     (date_pattern s \<or> (length s = 11 \<and> date_pattern (take 10 s) \<and> s ! 10 = CHR 0x0A))"

text \<open>A value used where the \<^verbatim>\<open>re\<close> or \<^verbatim>\<open>os.path\<close> functions need a string.\<close>

fun as_str :: "pyval \<Rightarrow> exn + string" where
  "as_str (PStr s) = Inr s"
| "as_str _ = Inl TypeError"

text \<open>A value whose string method is called (\<^verbatim>\<open>v.lower()\<close>).\<close>

fun str_method :: "pyval \<Rightarrow> exn + string" where
  "str_method (PStr s) = Inr s"
| "str_method _ = Inl AttributeError"

text \<open>
  \<^verbatim>\<open>re.search(r"#\s+(.*?)(?:\n|$)", text)\<close>: the first \<^verbatim>\<open>#\<close> that whitespace follows;
  the greedy \<^verbatim>\<open>\s+\<close> takes all of it, and the lazy group then runs to the next newline or
  to the end of the text. \<open>find_heading\<close> returns the text after that \<^verbatim>\<open>#\<close>.
\<close>

fun find_heading :: "string \<Rightarrow> string option" where
  "find_heading [] = None"
| "find_heading (c # cs) =
     (if c = CHR ''#'' \<and> cs \<noteq> [] \<and> is_space (hd cs) then Some cs else find_heading cs)"

definition extract_title :: "string \<Rightarrow> string" where
  "extract_title readme_content =
     (case find_heading readme_content of
        None \<Rightarrow> ''Unknown''
      | Some rest \<Rightarrow> strip (takeWhile (\<lambda>c. c \<noteq> CHR 0x0A) (dropWhile is_space rest)))"

text \<open>\<^verbatim>\<open>[item for item in data if item["type"] == "dir"]\<close>.\<close>

fun filter_type :: "string \<Rightarrow> pyval list \<Rightarrow> exn + pyval list" where
  "filter_type t [] = Inr []"
| "filter_type t (item # items) =
     bindE (getitem item ''type'') (\<lambda>ty.
     bindE (filter_type t items) (\<lambda>rest.
     Inr (if ty = PStr t then item # rest else rest)))"

text \<open>The loop over \<^verbatim>\<open>folders\<close> (lines 158-180).\<close>

fun datasets_loop :: "string \<Rightarrow> pyval list \<Rightarrow> dataset list \<Rightarrow> dataset list io" where
  "datasets_loop year [] datasets = ret datasets"
| "datasets_loop year (folder # folders) datasets =
     bnd (lift (getitem folder ''name'')) (\<lambda>week_name.
     bnd (lift (as_str week_name)) (\<lambda>date.
     if is_date_name date
     then bnd (requests_get
                 (PStr (RAW_GITHUB_URL @ ''/'' @ year @ ''/'' @ date @ ''/README.md'')))
            (\<lambda>readme_response.
               let title = (if status_code readme_response = 200
                            then extract_title (resp_text readme_response)
                            else ''Unknown'')
               in datasets_loop year folders
                    (datasets @ [\<lparr>ds_date = date, ds_title = title,
                                  ds_path = year @ ''/'' @ date\<rparr>]))
     else datasets_loop year folders datasets))"

definition tt_datasets :: "lib \<Rightarrow> pyval \<Rightarrow> bool \<Rightarrow> dataset list io" where
  "tt_datasets l year print_output =
     bnd (rate_limit_check True) (\<lambda>remaining.
     bnd (lift (py_lt_int remaining 5)) (\<lambda>low.
     if low then bnd (py_print Msg_rate_limit_low) (\<lambda>_. ret [])
     else
       try_except
         (let year = py_str l year in
          bnd (requests_get (PStr (GITHUB_API_URL @ ''/'' @ year))) (\<lambda>response.
          if status_code response \<noteq> 200
          then bnd (py_print (Msg_error_fetching_year year (status_code response))) (\<lambda>_. ret [])
          else
            bnd (lift (resp_json response)) (\<lambda>data.
            bnd (lift (bindE (py_iter data) (filter_type ''dir''))) (\<lambda>folders.
            bnd (datasets_loop year folders []) (\<lambda>datasets.
            let datasets = sort_key ds_date datasets in
            bnd (if print_output
                 then print_all (Msg_datasets_header year # Msg_datasets_rule #
                        map (\<lambda>d. Msg_dataset_line (ds_date d) (ds_title d)) datasets)
                 else ret ()) (\<lambda>_.
            ret datasets))))))
         (\<lambda>e. bnd (py_print (Msg_error e)) (\<lambda>_. ret []))))"

subsection \<open>\<^verbatim>\<open>tt_available\<close>\<close>

text \<open>\<^verbatim>\<open>[item["name"] for item in years_data if item["type"] == "dir"]\<close>.\<close>

fun dir_names :: "pyval list \<Rightarrow> exn + pyval list" where
  "dir_names [] = Inr []"
| "dir_names (item # items) =
     bindE (getitem item ''type'') (\<lambda>ty.
     bindE (if ty = PStr ''dir'' then bindE (getitem item ''name'') (\<lambda>n. Inr [n]) else Inr [])
       (\<lambda>here.
     bindE (dir_names items) (\<lambda>rest.
     Inr (here @ rest))))"

text \<open>
  \<^verbatim>\<open>all_datasets[year] = datasets\<close> on a dict in insertion order. A list or a dict is
  not hashable; \<^verbatim>\<open>True\<close> and \<^verbatim>\<open>1\<close> (and \<^verbatim>\<open>False\<close> and \<^verbatim>\<open>0\<close>) are the same key, and
  the dict keeps the key object it saw first.
\<close>

fun hashable :: "pyval \<Rightarrow> bool" where
  "hashable (PList xs) = False"
| "hashable (PDict kvs) = False"
| "hashable _ = True"

fun key_norm :: "pyval \<Rightarrow> pyval" where
  "key_norm (PBool b) = PInt (if b then 1 else 0)"
| "key_norm v = v"

fun dict_update :: "pyval \<Rightarrow> 'v \<Rightarrow> (pyval \<times> 'v) list \<Rightarrow> (pyval \<times> 'v) list" where
  "dict_update k v [] = [(k, v)]"
| "dict_update k v (p # ps) =
     (if key_norm (fst p) = key_norm k then (fst p, v) # ps else p # dict_update k v ps)"

definition dict_set :: "(pyval \<times> 'v) list \<Rightarrow> pyval \<Rightarrow> 'v \<Rightarrow> exn + (pyval \<times> 'v) list" where
  "dict_set d k v = (if hashable k then Inr (dict_update k v d) else Inl TypeError)"

text \<open>The loop over \<^verbatim>\<open>years\<close> (lines 112-114).\<close>

fun available_loop ::
    "lib \<Rightarrow> pyval list \<Rightarrow> (pyval \<times> dataset list) list \<Rightarrow> (pyval \<times> dataset list) list io" where
  "available_loop l [] all_datasets = ret all_datasets"
| "available_loop l (year # years) all_datasets =
     bnd (tt_datasets l year False) (\<lambda>datasets.
     bnd (lift (dict_set all_datasets year datasets)) (\<lambda>all_datasets'.
     available_loop l years all_datasets'))"

definition tt_available :: "lib \<Rightarrow> (pyval \<times> dataset list) list io" where
  "tt_available l =
     bnd (rate_limit_check True) (\<lambda>remaining.
     bnd (lift (py_lt_int remaining 5)) (\<lambda>low.
     if low then bnd (py_print Msg_rate_limit_low) (\<lambda>_. ret [])
     else
       try_except
         (bnd (requests_get (PStr GITHUB_API_URL)) (\<lambda>response.
          if status_code response \<noteq> 200
          then bnd (py_print (Msg_error_fetching (status_code response))) (\<lambda>_. ret [])
          else
            bnd (lift (resp_json response)) (\<lambda>years_data.
            bnd (lift (bindE (py_iter years_data) dir_names)) (\<lambda>years.
            bnd (available_loop l years []) (\<lambda>all_datasets.
            bnd (print_all (Msg_available_header # Msg_available_rule #
                   concat (map (\<lambda>(year, datasets).
                     Msg_year_heading year #
                     map (\<lambda>d. Msg_dataset_indented (ds_date d) (ds_title d)) datasets)
                   all_datasets))) (\<lambda>_.
            ret all_datasets))))))
         (\<lambda>e. bnd (py_print (Msg_error e)) (\<lambda>_. ret []))))"

subsection \<open>\<^verbatim>\<open>tt_load_gh\<close>\<close>

text \<open>The loop over \<^verbatim>\<open>files_data\<close> (lines 244-250).\<close>

fun data_files :: "pyval list \<Rightarrow> exn + pyval list" where
  "data_files [] = Inr []"
| "data_files (item # items) =
     bindE (getitem item ''type'') (\<lambda>ty.
     bindE (if ty = PStr ''file''
            then bindE (getitem item ''name'') (\<lambda>n.
                 bindE (str_method n) (\<lambda>name.
                 Inr (\<not> startswith (lower name) ''readme'')))
            else Inr False) (\<lambda>keep.
     bindE (if keep
            then bindE (getitem item ''name'') (\<lambda>n.
                 bindE (getitem item ''download_url'') (\<lambda>u.
                 bindE (getitem item ''path'') (\<lambda>p.
                 Inr [PDict [(''name'', n), (''download_url'', u), (''path'', p)]])))
            else Inr []) (\<lambda>here.
     bindE (data_files items) (\<lambda>rest.
     Inr (here @ rest)))))"

text \<open>
  Lines 213-231: the year and the date of the folder, or \<open>None\<close> where the method prints
  a message and returns the empty dict. With a week number the date is an entry of the
  listing \<^verbatim>\<open>tt_datasets\<close> returns; without one it is the argument itself.
\<close>

definition locate :: "lib \<Rightarrow> pyval \<Rightarrow> int option \<Rightarrow> (string \<times> string) option io" where
  "locate l date_or_year week =
     (case week of
        Some w \<Rightarrow>
          let year = py_str l date_or_year in
          bnd (tt_datasets l (PStr year) False) (\<lambda>datasets.
          if datasets = [] then bnd (py_print (Msg_no_datasets year)) (\<lambda>_. ret None)
          else if w < 1 \<or> w > int (length datasets)
          then bnd (py_print (Msg_week_out_of_range w year)) (\<lambda>_. ret None)
          else ret (Some (year, ds_date (datasets ! nat (w - 1)))))
      | None \<Rightarrow>
          let date = py_str l date_or_year in ret (Some (take 4 date, date)))"

text \<open>Lines 233-266: the listing of the folder, its data files and its README.\<close>

definition fetch_week :: "lib \<Rightarrow> string \<Rightarrow> string \<Rightarrow> (string \<times> pyval) list io" where
  "fetch_week l year date =
     bnd (requests_get (PStr (GITHUB_API_URL @ ''/'' @ year @ ''/'' @ date))) (\<lambda>response.
     if status_code response \<noteq> 200
     then bnd (py_print (Msg_error_fetching_date date (status_code response))) (\<lambda>_. ret [])
     else
       bnd (lift (resp_json response)) (\<lambda>files_data.
       bnd (lift (bindE (py_iter files_data) data_files)) (\<lambda>files.
       bnd (requests_get
              (PStr (RAW_GITHUB_URL @ ''/'' @ year @ ''/'' @ date @ ''/README.md'')))
         (\<lambda>readme_response.
       let readme_content =
             (if status_code readme_response = 200 then resp_text readme_response else [])
       in ret [(''date'', PStr date), (''year'', PStr year), (''files'', PList files),
               (''readme_content'', PStr readme_content),
               (''readme_html'', PStr (markdown_to_html l readme_content))]))))"

definition tt_load_gh :: "lib \<Rightarrow> pyval \<Rightarrow> int option \<Rightarrow> (string \<times> pyval) list io" where
  "tt_load_gh l date_or_year week =
     bnd (rate_limit_check True) (\<lambda>remaining.
     bnd (lift (py_lt_int remaining 5)) (\<lambda>low.
     if low then bnd (py_print Msg_rate_limit_low) (\<lambda>_. ret [])
     else
       try_except
         (bnd (locate l date_or_year week) (\<lambda>located.
          case located of
            None \<Rightarrow> ret []
          | Some (year, date) \<Rightarrow> fetch_week l year date))
         (\<lambda>e. bnd (py_print (Msg_error e)) (\<lambda>_. ret []))))"

subsection \<open>\<^verbatim>\<open>tt_download_file\<close> and \<^verbatim>\<open>tt_download\<close>\<close>

text \<open>
  The \<^verbatim>\<open>if\<close>/\<^verbatim>\<open>elif\<close> chain on the lower-cased file name that both methods contain
  (lines 318-329 and 392-402). \<open>None\<close> is the \<^verbatim>\<open>else\<close> branch: no reader is called and no
  table exists.
\<close>

definition read_by_extension :: "lib \<Rightarrow> string \<Rightarrow> string \<Rightarrow> exn + table option" where
  "read_by_extension l file_name content =
     (if endswith file_name ''.csv'' then bindE (read_csv l content) (\<lambda>df. Inr (Some df))
      else if endswith file_name ''.tsv'' then bindE (read_csv_tab l content) (\<lambda>df. Inr (Some df))
      else if endswith file_name ''.xls'' \<or> endswith file_name ''.xlsx''
           then bindE (read_excel l content) (\<lambda>df. Inr (Some df))
      else if endswith file_name ''.json'' then bindE (read_json l content) (\<lambda>df. Inr (Some df))
      else Inr None)"

text \<open>\<^verbatim>\<open>next((f for f in files if f["name"] == name), None)\<close>.\<close>

fun find_by_name :: "pyval list \<Rightarrow> string \<Rightarrow> exn + pyval" where
  "find_by_name [] name = Inr PNone"
| "find_by_name (f # fs) name =
     bindE (getitem f ''name'') (\<lambda>n. if n = PStr name then Inr f else find_by_name fs name)"

datatype file_identifier = FileName string | FileIndex int

text \<open>Lines 290-300: the file the identifier selects, or \<open>None\<close> after the message of an
  index out of range or a name not found.\<close>

definition select_file :: "pyval \<Rightarrow> file_identifier \<Rightarrow> pyval option io" where
  "select_file files file_identifier =
     (case file_identifier of
        FileIndex i \<Rightarrow>
          if i < 0 then bnd (py_print (Msg_index_out_of_range i)) (\<lambda>_. ret None)
          else bnd (lift (py_len files)) (\<lambda>n.
               if i \<ge> n then bnd (py_print (Msg_index_out_of_range i)) (\<lambda>_. ret None)
               else bnd (lift (py_index files (nat i))) (\<lambda>file_info. ret (Some file_info)))
      | FileName name \<Rightarrow>
          bnd (lift (bindE (py_iter files) (\<lambda>fs. find_by_name fs name))) (\<lambda>file_info.
          if \<not> truthy file_info then bnd (py_print (Msg_file_not_found name)) (\<lambda>_. ret None)
          else ret (Some file_info)))"

text \<open>\<open>tt_data\<close> is a dict (\<^verbatim>\<open>Dict[str, Any]\<close>): \<^verbatim>\<open>not tt_data\<close> is the empty dict.\<close>

definition tt_download_file ::
    "lib \<Rightarrow> (string \<times> pyval) list \<Rightarrow> file_identifier \<Rightarrow> table io" where
  "tt_download_file l tt_data file_identifier =
     (if tt_data = [] \<or> map_of tt_data ''files'' = None
      then bnd (py_print Msg_invalid_data) (\<lambda>_. ret DataFrame_empty)
      else
        try_except
          (bnd (lift (getitem (PDict tt_data) ''files'')) (\<lambda>files.
           bnd (select_file files file_identifier) (\<lambda>selected.
           case selected of
             None \<Rightarrow> ret DataFrame_empty
           | Some file_info \<Rightarrow>
               bnd (lift (getitem file_info ''name'')) (\<lambda>name.
               bnd (py_print (Msg_downloading name)) (\<lambda>_.
               bnd (lift (getitem file_info ''download_url'')) (\<lambda>url.
               bnd (requests_get url) (\<lambda>response.
               if status_code response \<noteq> 200
               then bnd (py_print (Msg_error_downloading_status (status_code response)))
                      (\<lambda>_. ret DataFrame_empty)
               else
                 bnd (lift (bindE (getitem file_info ''name'') str_method)) (\<lambda>name_str.
                 let file_name = lower name_str in
                 bnd (lift (read_by_extension l file_name (resp_content response))) (\<lambda>r.
                 case r of
                   None \<Rightarrow> bnd (py_print (Msg_unsupported file_name)) (\<lambda>_. ret DataFrame_empty)
                 | Some df \<Rightarrow>
                     bnd (lift (getitem file_info ''name'')) (\<lambda>name.
                     bnd (py_print (Msg_loaded name)) (\<lambda>_.
                     ret df)))))))))))
          (\<lambda>e. bnd (py_print (Msg_error_downloading_file e)) (\<lambda>_. ret DataFrame_empty)))"

datatype files_arg = FilesStr string | FilesList "string list"

text \<open>Lines 365-371: the files an explicit selector names, in its order, with a warning
  for each name that no file has.\<close>

fun select_loop :: "pyval \<Rightarrow> string list \<Rightarrow> pyval list \<Rightarrow> pyval list io" where
  "select_loop available_files [] files_to_download = ret files_to_download"
| "select_loop available_files (file_name # names) files_to_download =
     bnd (lift (bindE (py_iter available_files) (\<lambda>fs. find_by_name fs file_name)))
       (\<lambda>file_info.
          if truthy file_info
          then select_loop available_files names (files_to_download @ [file_info])
          else bnd (py_print (Msg_warning_not_found file_name))
                 (\<lambda>_. select_loop available_files names files_to_download))"

text \<open>
  The loop over \<^verbatim>\<open>files_to_download\<close> (lines 374-414). \<^verbatim>\<open>os.path.splitext\<close> needs a
  string; the inner \<^verbatim>\<open>try\<close> covers the readers, and \<^verbatim>\<open>result[key] = df\<close> replaces
  the table of a key the dict already has.
\<close>

fun download_loop ::
    "lib \<Rightarrow> pyval list \<Rightarrow> (string \<times> table) list \<Rightarrow> (string \<times> table) list io" where
  "download_loop l [] result = ret result"
| "download_loop l (file_info # files) result =
     bnd (lift (getitem file_info ''name'')) (\<lambda>file_name.
     bnd (py_print (Msg_downloading file_name)) (\<lambda>_.
     bnd (lift (getitem file_info ''download_url'')) (\<lambda>url.
     bnd (requests_get url) (\<lambda>response.
     if status_code response \<noteq> 200
     then bnd (py_print (Msg_error_downloading file_name (status_code response)))
            (\<lambda>_. download_loop l files result)
     else
       bnd (lift (as_str file_name)) (\<lambda>name.
       let file_name_lower = lower name in
       case read_by_extension l file_name_lower (resp_content response) of
         Inl e \<Rightarrow> bnd (py_print (Msg_error_processing name e)) (\<lambda>_. download_loop l files result)
       | Inr None \<Rightarrow> bnd (py_print (Msg_unsupported name)) (\<lambda>_. download_loop l files result)
       | Inr (Some df) \<Rightarrow>
           let key = fst (splitext name) in
           bnd (py_print (Msg_loaded (PStr name)))
             (\<lambda>_. download_loop l files (AList.update key df result)))))))"

definition tt_download ::
    "lib \<Rightarrow> (string \<times> pyval) list \<Rightarrow> files_arg \<Rightarrow> (string \<times> table) list io" where
  "tt_download l tt_data files =
     (if tt_data = [] \<or> map_of tt_data ''files'' = None
      then bnd (py_print Msg_invalid_data) (\<lambda>_. ret [])
      else
        try_except
          (bnd (lift (getitem (PDict tt_data) ''files'')) (\<lambda>available_files.
           bnd (if files = FilesStr ''All'' then lift (py_iter available_files)
                else select_loop available_files
                       (case files of FilesStr s \<Rightarrow> [s] | FilesList names \<Rightarrow> names) [])
             (\<lambda>files_to_download.
           download_loop l files_to_download [])))
          (\<lambda>e. bnd (py_print (Msg_error_downloading_files e)) (\<lambda>_. ret [])))"

subsection \<open>\<^verbatim>\<open>tt_load\<close>\<close>

text \<open>A value of the dict \<^verbatim>\<open>tt_load\<close> returns: a metadata value or a table.\<close>

datatype loaded = Meta pyval | Frame table

text \<open>The dict display \<^verbatim>\<open>{"date": ..., ..., **data}\<close>: the four metadata items, then
  each item of \<open>data\<close> set in turn.\<close>

definition tt_load ::
    "lib \<Rightarrow> pyval \<Rightarrow> int option \<Rightarrow> files_arg \<Rightarrow> (string \<times> loaded) list io" where
  "tt_load l date_or_year week files =
     bnd (tt_load_gh l date_or_year week) (\<lambda>tt_data.
     if tt_data = [] then ret []
     else
       bnd (tt_download l tt_data files) (\<lambda>data.
       bnd (lift (getitem (PDict tt_data) ''date'')) (\<lambda>date.
       bnd (lift (getitem (PDict tt_data) ''year'')) (\<lambda>year.
       bnd (lift (getitem (PDict tt_data) ''readme_content'')) (\<lambda>readme_content.
       bnd (lift (getitem (PDict tt_data) ''readme_html'')) (\<lambda>readme_html.
       ret (foldl (\<lambda>result (key, df). AList.update key (Frame df) result)
              [(''date'', Meta date), (''year'', Meta year),
               (''readme_content'', Meta readme_content), (''readme_html'', Meta readme_html)]
              data)))))))"

subsection \<open>Observations on a run\<close>

text \<open>The number of rate-limit requests in the log, a method that returns from every state
  (no exception leaves it), and a method that sends no rate-limit request.\<close>

definition probes :: "state \<Rightarrow> nat" where
  "probes s = length (filter (\<lambda>e. e = RateLimitGet) (log s))"

definition returns :: "'a io \<Rightarrow> bool" where
  "returns m = (\<forall>s. \<exists>x s'. m s = (Inr x, s'))"

definition no_probe :: "'a io \<Rightarrow> bool" where
  "no_probe m = (\<forall>s. probes (snd (m s)) = probes s)"

text \<open>A file entry that has a name, and one that has the given name (what the search
  \<^verbatim>\<open>f["name"] == file_name\<close> looks for).\<close>

definition has_name :: "pyval \<Rightarrow> bool" where
  "has_name f = (case getitem f ''name'' of Inr v \<Rightarrow> True | Inl e \<Rightarrow> False)"

definition named :: "string \<Rightarrow> pyval \<Rightarrow> bool" where
  "named name f = (getitem f ''name'' = Inr (PStr name))"

text \<open>Two states that differ in their logs at most, and a method whose result does not
  depend on the log.\<close>

definition same_but_log :: "state \<Rightarrow> state \<Rightarrow> bool" where
  "same_but_log s t =
     (net s = net t \<and> clock s = clock t \<and> rate_limit_remaining s = rate_limit_remaining t)"

definition log_blind :: "'a io \<Rightarrow> bool" where
  "log_blind m =
     (\<forall>s t. same_but_log s t \<longrightarrow> fst (m s) = fst (m t) \<and> same_but_log (snd (m s)) (snd (m t)))"

subsection \<open>A remote and a library to run the methods on\<close>

definition ex_table_ab :: table where
  "ex_table_ab = \<lparr>columns = [''a'', ''b''], rows = [[CInt 1, CInt 2]]\<rparr>"

definition ex_table_cd :: table where
  "ex_table_cd = \<lparr>columns = [''c'', ''d''], rows = [[CInt 3, CInt 4]]\<rparr>"

definition ex_csv :: string where
  "ex_csv = ''a,b'' @ [CHR 0x0A] @ ''1,2'' @ [CHR 0x0A]"

definition ex_tsv :: string where
  "ex_tsv = ''c'' @ [CHR 0x09] @ ''d'' @ [CHR 0x0A] @ ''3'' @ [CHR 0x09] @ ''4'' @ [CHR 0x0A]"

definition ex_lib :: lib where
  "ex_lib =
     \<lparr>read_csv = (\<lambda>b. if b = ex_csv then Inr ex_table_ab else Inl ParserError),
      read_csv_tab = (\<lambda>b. if b = ex_tsv then Inr ex_table_cd else Inl ParserError),
      read_excel = (\<lambda>b. Inl ParserError),
      read_json = (\<lambda>b. Inl ParserError),
      markdown_to_html = (\<lambda>s. ''<body>'' @ s @ ''</body>''),
      str_of_container = (\<lambda>v. ''[]'')\<rparr>"

definition ex_ok :: "string \<Rightarrow> pyval \<Rightarrow> exn + response" where
  "ex_ok body j =
     Inr \<lparr>status_code = 200, resp_text = body, resp_content = body, resp_json = Inr j\<rparr>"

definition ex_not_found :: "exn + response" where
  "ex_not_found =
     Inr \<lparr>status_code = 404, resp_text = ''Not Found'', resp_content = ''Not Found'',
          resp_json = Inl JSONDecodeError\<rparr>"

definition ex_entry :: "string \<Rightarrow> string \<Rightarrow> pyval" where
  "ex_entry n t =
     PDict [(''name'', PStr n), (''type'', PStr t),
            (''download_url'', PStr (''https://dl/'' @ n)), (''path'', PStr (''data/'' @ n))]"

definition ex_rate :: "int \<Rightarrow> pyval" where
  "ex_rate n = PDict [(''resources'', PDict [(''core'', PDict [(''remaining'', PInt n)])])]"

definition ex_net :: "nat \<Rightarrow> string \<Rightarrow> exn + response" where
  "ex_net n url =
     (if url = RATE_LIMIT_URL then ex_ok [] (ex_rate 60)
      else if url = GITHUB_API_URL
        then ex_ok [] (PList [ex_entry ''2020'' ''dir'', ex_entry ''2021'' ''dir'',
                              ex_entry ''README.md'' ''file''])
      else if url = GITHUB_API_URL @ ''/2020''
        then ex_ok [] (PList [ex_entry ''2020-01-14'' ''dir'', ex_entry ''2019-12-31'' ''dir'',
                              ex_entry ''2020-01-07'' ''dir'', ex_entry ''readme.md'' ''file''])
      else if url = GITHUB_API_URL @ ''/2021'' then ex_ok [] (PList [])
      else if url = RAW_GITHUB_URL @ ''/2020/2020-01-07/README.md''
        then ex_ok (''# Passwords'' @ [CHR 0x0A]) PNone
      else if url = GITHUB_API_URL @ ''/2020/2020-01-07''
        then ex_ok [] (PList [ex_entry ''data.csv'' ''file'', ex_entry ''README.md'' ''file'',
                              ex_entry ''data.tsv'' ''file'', ex_entry ''date.csv'' ''file'',
                              ex_entry ''notes.xyz'' ''file''])
      else if url = ''https://dl/data.csv'' then ex_ok ex_csv PNone
      else if url = ''https://dl/date.csv'' then ex_ok ex_csv PNone
      else if url = ''https://dl/data.tsv'' then ex_ok ex_tsv PNone
      else if url = ''https://dl/notes.xyz'' then ex_ok ex_csv PNone
      else ex_not_found)"

definition ex_state :: state where
  "ex_state = \<lparr>net = ex_net, clock = 0, log = [], rate_limit_remaining = PNone\<rparr>"

definition ex_file :: "string \<Rightarrow> pyval" where
  "ex_file n =
     PDict [(''name'', PStr n), (''download_url'', PStr (''https://dl/'' @ n)),
            (''path'', PStr (''data/'' @ n))]"

definition ex_meta :: "(string \<times> pyval) list" where
  "ex_meta =
     [(''date'', PStr ''2020-01-07''), (''year'', PStr ''2020''),
      (''files'', PList [ex_file ''data.csv'', ex_file ''data.tsv'', ex_file ''date.csv'',
                         ex_file ''notes.xyz'']),
      (''readme_content'', PStr (''# Passwords'' @ [CHR 0x0A])),
      (''readme_html'', PStr (''<body># Passwords'' @ [CHR 0x0A] @ ''</body>''))]"


section \<open>Properties\<close>

subsection \<open>Running the model\<close>

lemma ret_apply: "ret x s = (Inr x, s)"
  by (simp add: ret_def)

lemma lift_apply: "lift r s = (r, s)"
  by (simp add: lift_def)

lemma bnd_apply: "bnd m f s = (case m s of (Inl e, s') \<Rightarrow> (Inl e, s') | (Inr x, s') \<Rightarrow> f x s')"
  by (simp add: bnd_def)

lemma bnd_Inr: "m s = (Inr x, s') \<Longrightarrow> bnd m f s = f x s'"
  by (simp add: bnd_def)

lemma bnd_Inl: "m s = (Inl e, s') \<Longrightarrow> bnd m f s = (Inl e, s')"
  by (simp add: bnd_def)

lemma bnd_ret [simp]: "bnd (ret x) f = f x"
  by (simp add: bnd_def ret_def)

lemma bnd_lift_Inr [simp]: "bnd (lift (Inr x)) f = f x"
  by (simp add: bnd_def lift_def)

lemma bnd_lift_Inl [simp]: "bnd (lift (Inl e)) f = lift (Inl e)"
  by (simp add: bnd_def lift_def)

lemma try_except_apply:
  "try_except m h s = (case m s of (Inl e, s') \<Rightarrow> h e s' | (Inr x, s') \<Rightarrow> (Inr x, s'))"
  by (simp add: try_except_def)

lemma py_print_apply: "py_print m s = (Inr (), s\<lparr>log := log s @ [Print m]\<rparr>)"
  by (simp add: py_print_def)

lemma bnd_py_print: "bnd (py_print m) f s = f () (s\<lparr>log := log s @ [Print m]\<rparr>)"
  by (simp add: bnd_def py_print_def)

lemmas run_simps = ret_apply lift_apply py_print_apply bnd_py_print

lemma returns_ret [simp]: "returns (ret x)"
  by (simp add: returns_def ret_apply)

lemma returns_py_print [simp]: "returns (py_print m)"
  by (simp add: returns_def py_print_apply)

lemma returns_bnd:
  assumes "returns m" and "\<And>x. returns (f x)"
  shows "returns (bnd m f)"
  unfolding returns_def
proof
  fix s
  from assms(1) obtain x s' where "m s = (Inr x, s')" unfolding returns_def by blast
  moreover from assms(2) obtain y s'' where "f x s' = (Inr y, s'')" unfolding returns_def by blast
  ultimately show "\<exists>y s''. bnd m f s = (Inr y, s'')" by (simp add: bnd_def)
qed

lemma returns_try:
  assumes "\<And>e. returns (h e)"
  shows "returns (try_except m h)"
  unfolding returns_def
proof
  fix s
  obtain r s' where ms: "m s = (r, s')" by (cases "m s")
  show "\<exists>y s''. try_except m h s = (Inr y, s'')"
  proof (cases r)
    case (Inl e)
    from assms obtain y s'' where "h e s' = (Inr y, s'')" unfolding returns_def by blast
    with ms Inl show ?thesis by (simp add: try_except_def)
  next
    case (Inr x)
    with ms show ?thesis by (simp add: try_except_def)
  qed
qed

lemma returns_if: "returns a \<Longrightarrow> returns b \<Longrightarrow> returns (if c then a else b)"
  by simp

lemma returns_handler [simp]: "returns (bnd (py_print m) (\<lambda>_. ret x))"
  by (simp add: returns_bnd)

lemma returns_set_rate [simp]: "returns (set_rate_limit_remaining v)"
  by (simp add: returns_def set_rate_limit_remaining_def)

lemma returns_update_rate_limit: "returns update_rate_limit"
  unfolding update_rate_limit_def by (rule returns_try) simp

lemma returns_rate_limit_check: "returns (rate_limit_check quiet)"
  unfolding rate_limit_check_def
  by (intro returns_bnd returns_update_rate_limit returns_if)
     (simp_all add: returns_def get_rate_limit_remaining_def run_simps)

lemma returns_tt_download: "returns (tt_download l tt_data files)"
  unfolding tt_download_def
  by (intro returns_if returns_try returns_handler)

lemma returns_tt_download_file: "returns (tt_download_file l tt_data fid)"
  unfolding tt_download_file_def
  by (intro returns_if returns_try returns_handler)


subsection \<open>The calendar\<close>


lemma mod_decomp: "(0::int) \<le> r \<Longrightarrow> r < b \<Longrightarrow> (b * q + r) mod b = r"
  by (simp add: int_mod_pos_eq)

















lemma digit_nat: "0 \<le> (n::int) \<Longrightarrow> nat (n mod 10) < 10"
  by simp




















subsection \<open>\<^verbatim>\<open>last_tuesday\<close>\<close>




subsection \<open>Invalid metadata\<close>

text \<open>
  C10. For every dict \<open>tt_data\<close> that is empty or has no \<^verbatim>\<open>"files"\<close> key (such as the
  empty dict a failed \<^verbatim>\<open>tt_load_gh\<close> returns), \<^verbatim>\<open>tt_download\<close> returns the empty dict
  and \<^verbatim>\<open>tt_download_file\<close> returns the empty DataFrame; each prints the diagnostic
  "Invalid TidyTuesday data. Use tt_load_gh first.", sends no request and raises nothing.
\<close>

theorem invalid_metadata_absorbed:
  assumes "tt_data = [] \<or> map_of tt_data ''files'' = None"
  shows "tt_download l tt_data files s = (Inr [], s\<lparr>log := log s @ [Print Msg_invalid_data]\<rparr>) \<and>
         tt_download_file l tt_data file_identifier s =
           (Inr DataFrame_empty, s\<lparr>log := log s @ [Print Msg_invalid_data]\<rparr>)"
  using assms by (auto simp: tt_download_def tt_download_file_def run_simps)

theorem invalid_metadata_absorbed_witness:
  "tt_download ex_lib [] (FilesStr ''All'') ex_state =
     (Inr [], ex_state\<lparr>log := log ex_state @ [Print Msg_invalid_data]\<rparr>) \<and>
   tt_download_file ex_lib [] (FileIndex 0) ex_state =
     (Inr DataFrame_empty, ex_state\<lparr>log := log ex_state @ [Print Msg_invalid_data]\<rparr>) \<and>
   tt_download ex_lib [(''date'', PStr ''2020-01-07'')] (FilesList [''data.csv'']) ex_state =
     (Inr [], ex_state\<lparr>log := log ex_state @ [Print Msg_invalid_data]\<rparr>) \<and>
   tt_download_file ex_lib [(''date'', PStr ''2020-01-07'')] (FileName ''data.csv'') ex_state =
     (Inr DataFrame_empty, ex_state\<lparr>log := log ex_state @ [Print Msg_invalid_data]\<rparr>)"
  using invalid_metadata_absorbed [of "[]" ex_lib "FilesStr ''All''" ex_state "FileIndex 0"]
        invalid_metadata_absorbed [of "[(''date'', PStr ''2020-01-07'')]" ex_lib
          "FilesList [''data.csv'']" ex_state "FileName ''data.csv''"]
  by simp

subsection \<open>Which exceptions leave a method\<close>

lemma returnsD: "returns m \<Longrightarrow> \<exists>x s'. m s = (Inr x, s')"
  by (simp add: returns_def)

lemma rate_limit_check_returns: "\<exists>v s1. rate_limit_check quiet s = (Inr v, s1)"
  using returns_rate_limit_check by (rule returnsD)

lemma rate_guard_Inl:
  assumes "rate_limit_check True s = (Inr v, s1)" and "py_lt_int v 5 = Inl e"
  shows "bnd (rate_limit_check True) (\<lambda>remaining. bnd (lift (py_lt_int remaining 5)) k) s = (Inl e, s1)"
  using assms by (simp add: bnd_Inr run_simps)

lemma rate_guard_Inr:
  assumes "rate_limit_check True s = (Inr v, s1)" and "py_lt_int v 5 = Inr b"
  shows "bnd (rate_limit_check True) (\<lambda>remaining. bnd (lift (py_lt_int remaining 5)) k) s = k b s1"
  using assms by (simp add: bnd_Inr run_simps)

lemma returns_guarded: "returns (if low then bnd (py_print m) (\<lambda>_. ret x) else try_except body (\<lambda>e. bnd (py_print (h e)) (\<lambda>_. ret y)))"
  by (intro returns_if returns_try returns_handler)

lemma tt_datasets_returns:
  assumes "rate_limit_check True s = (Inr v, s1)" and "py_lt_int v 5 = Inr b"
  shows "\<exists>r s'. tt_datasets l year print_output s = (Inr r, s')"
  unfolding tt_datasets_def rate_guard_Inr[OF assms]
  using returns_guarded by (rule returnsD)

lemma tt_available_returns:
  assumes "rate_limit_check True s = (Inr v, s1)" and "py_lt_int v 5 = Inr b"
  shows "\<exists>r s'. tt_available l s = (Inr r, s')"
  unfolding tt_available_def rate_guard_Inr[OF assms]
  using returns_guarded by (rule returnsD)

lemma tt_load_gh_returns:
  assumes "rate_limit_check True s = (Inr v, s1)" and "py_lt_int v 5 = Inr b"
  shows "\<exists>r s'. tt_load_gh l date_or_year week s = (Inr r, s')"
  unfolding tt_load_gh_def rate_guard_Inr[OF assms]
  using returns_guarded by (rule returnsD)

lemma tt_datasets_raises:
  assumes "rate_limit_check True s = (Inr v, s1)" and "py_lt_int v 5 = Inl e"
  shows "tt_datasets l year print_output s = (Inl e, s1)"
  unfolding tt_datasets_def by (rule rate_guard_Inl[OF assms])

lemma tt_available_raises:
  assumes "rate_limit_check True s = (Inr v, s1)" and "py_lt_int v 5 = Inl e"
  shows "tt_available l s = (Inl e, s1)"
  unfolding tt_available_def by (rule rate_guard_Inl[OF assms])

lemma tt_load_gh_raises:
  assumes "rate_limit_check True s = (Inr v, s1)" and "py_lt_int v 5 = Inl e"
  shows "tt_load_gh l date_or_year week s = (Inl e, s1)"
  unfolding tt_load_gh_def by (rule rate_guard_Inl[OF assms])


lemma fetch_week_result:
  assumes "fetch_week l year date s = (Inr d, s')" and "d \<noteq> []"
  shows "\<exists>files rc. d = [(''date'', PStr date), (''year'', PStr year), (''files'', PList files),
            (''readme_content'', PStr rc), (''readme_html'', PStr (markdown_to_html l rc))]"
  using assms unfolding fetch_week_def
  by (auto simp: bnd_apply requests_get_def Let_def run_simps split: prod.splits sum.splits if_splits)

lemma tt_load_gh_result:
  assumes "tt_load_gh l date_or_year week s = (Inr d, s')" and "d \<noteq> []"
  shows "\<exists>date year files rc. d = [(''date'', PStr date), (''year'', PStr year), (''files'', PList files),
            (''readme_content'', PStr rc), (''readme_html'', PStr (markdown_to_html l rc))]"
proof -
  obtain v s1 where rc: "rate_limit_check True s = (Inr v, s1)"
    using rate_limit_check_returns by blast
  show ?thesis
  proof (cases "py_lt_int v 5")
    case (Inl e)
    from tt_load_gh_raises[OF rc Inl] assms show ?thesis by simp
  next
    case (Inr b)
    from assms(1) have "(if b then bnd (py_print Msg_rate_limit_low) (\<lambda>_. ret [])
        else try_except
          (bnd (locate l date_or_year week) (\<lambda>located.
             case located of None \<Rightarrow> ret [] | Some (year, date) \<Rightarrow> fetch_week l year date))
          (\<lambda>e. bnd (py_print (Msg_error e)) (\<lambda>_. ret []))) s1 = (Inr d, s')"
      unfolding tt_load_gh_def rate_guard_Inr[OF rc Inr] .
    with assms(2) obtain year date s2 where "fetch_week l year date s2 = (Inr d, s')"
      by (auto simp: try_except_apply bnd_apply run_simps split: if_splits prod.splits sum.splits option.splits)
    from fetch_week_result[OF this assms(2)] show ?thesis by blast
  qed
qed


lemma map_of_foldl_update:
  "map_of (foldl (\<lambda>result (key, df). AList.update key (f df) result) base data) k =
     (case map_of (rev data) k of Some df \<Rightarrow> Some (f df) | None \<Rightarrow> map_of base k)"
proof (induction data arbitrary: base)
  case Nil
  then show ?case by simp
next
  case (Cons p data)
  obtain k' v where p: "p = (k', v)" by (cases p)
  show ?case
    by (simp add: p Cons.IH update_conv' map_add_def split: option.splits)
qed

lemma tt_load_result:
  assumes gh: "tt_load_gh l date_or_year week s = (Inr tt_data, s1)" and ne: "tt_data \<noteq> []"
    and dl: "tt_download l tt_data files s1 = (Inr data, s2)"
  shows "\<exists>date year fs rc.
     tt_data = [(''date'', PStr date), (''year'', PStr year), (''files'', PList fs),
                (''readme_content'', PStr rc), (''readme_html'', PStr (markdown_to_html l rc))] \<and>
     tt_load l date_or_year week files s =
       (Inr (foldl (\<lambda>result (key, df). AList.update key (Frame df) result)
               [(''date'', Meta (PStr date)), (''year'', Meta (PStr year)),
                (''readme_content'', Meta (PStr rc)),
                (''readme_html'', Meta (PStr (markdown_to_html l rc)))] data), s2)"
proof -
  from tt_load_gh_result[OF gh ne] obtain date year fs rc where
    d: "tt_data = [(''date'', PStr date), (''year'', PStr year), (''files'', PList fs),
                (''readme_content'', PStr rc), (''readme_html'', PStr (markdown_to_html l rc))]"
    by blast
  have "tt_load l date_or_year week files s =
       (Inr (foldl (\<lambda>result (key, df). AList.update key (Frame df) result)
               [(''date'', Meta (PStr date)), (''year'', Meta (PStr year)),
                (''readme_content'', Meta (PStr rc)),
                (''readme_html'', Meta (PStr (markdown_to_html l rc)))] data), s2)"
    unfolding tt_load_def using gh dl ne by (simp add: bnd_Inr d run_simps)
  with d show ?thesis by blast
qed

lemma tt_load_returns:
  assumes "rate_limit_check True s = (Inr v, s1)" and "py_lt_int v 5 = Inr b"
  shows "\<exists>r s'. tt_load l date_or_year week files s = (Inr r, s')"
proof -
  from tt_load_gh_returns[OF assms] obtain tt_data s2 where
    gh: "tt_load_gh l date_or_year week s = (Inr tt_data, s2)" by blast
  show ?thesis
  proof (cases "tt_data = []")
    case True
    with gh show ?thesis by (simp add: tt_load_def bnd_Inr run_simps)
  next
    case False
    from returnsD[OF returns_tt_download] obtain data s3 where
      "tt_download l tt_data files s2 = (Inr data, s3)" by blast
    from tt_load_result[OF gh False this] show ?thesis by blast
  qed
qed

lemma tt_load_raises:
  assumes "rate_limit_check True s = (Inr v, s1)" and "py_lt_int v 5 = Inl e"
  shows "tt_load l date_or_year week files s = (Inl e, s1)"
  unfolding tt_load_def using tt_load_gh_raises[OF assms] by (simp add: bnd_Inl)

lemma last_tuesday_parse_error:
  assumes "strptime str = Inl e"
  shows "last_tuesday utcnow (DateStr str) = Inl e"
  using assms by (simp add: last_tuesday_def bindE_def)

text \<open>
  C8 (amended). \<^verbatim>\<open>tt_download\<close>, \<^verbatim>\<open>tt_download_file\<close> and \<^verbatim>\<open>rate_limit_check\<close> return a
  result for every dict argument, every library behaviour and every remote.
  \<^verbatim>\<open>tt_datasets\<close>, \<^verbatim>\<open>tt_available\<close>, \<^verbatim>\<open>tt_load_gh\<close> and \<^verbatim>\<open>tt_load\<close> return a result
  whenever the value \<^verbatim>\<open>rate_limit_check\<close> gives them can be compared with 5 (it is a
  number); on any other value the comparison, which stands before the \<^verbatim>\<open>try\<close>, raises
  and the exception leaves the method. \<^verbatim>\<open>last_tuesday\<close> has no \<^verbatim>\<open>try\<close>: the exception
  \<^verbatim>\<open>strptime\<close> raises on an unparseable string leaves it.
\<close>

theorem exceptions_that_escape:
  "(\<exists>r s'. tt_download l tt_data files s = (Inr r, s')) \<and>
   (\<exists>r s'. tt_download_file l tt_data file_identifier s = (Inr r, s')) \<and>
   (\<exists>v s1. rate_limit_check True s = (Inr v, s1) \<and>
      (case py_lt_int v 5 of
         Inr low \<Rightarrow>
           (\<exists>r s'. tt_datasets l year print_output s = (Inr r, s')) \<and>
           (\<exists>r s'. tt_available l s = (Inr r, s')) \<and>
           (\<exists>r s'. tt_load_gh l date_or_year week s = (Inr r, s')) \<and>
           (\<exists>r s'. tt_load l date_or_year week files s = (Inr r, s'))
       | Inl e \<Rightarrow>
           tt_datasets l year print_output s = (Inl e, s1) \<and>
           tt_available l s = (Inl e, s1) \<and>
           tt_load_gh l date_or_year week s = (Inl e, s1) \<and>
           tt_load l date_or_year week files s = (Inl e, s1))) \<and>
   (case strptime str of
      Inl e \<Rightarrow> last_tuesday utcnow (DateStr str) = Inl e
    | Inr t \<Rightarrow> True)"
proof -
  obtain v s1 where rc: "rate_limit_check True s = (Inr v, s1)"
    using rate_limit_check_returns by blast
  have g: "case py_lt_int v 5 of
         Inr low \<Rightarrow>
           (\<exists>r s'. tt_datasets l year print_output s = (Inr r, s')) \<and>
           (\<exists>r s'. tt_available l s = (Inr r, s')) \<and>
           (\<exists>r s'. tt_load_gh l date_or_year week s = (Inr r, s')) \<and>
           (\<exists>r s'. tt_load l date_or_year week files s = (Inr r, s'))
       | Inl e \<Rightarrow>
           tt_datasets l year print_output s = (Inl e, s1) \<and>
           tt_available l s = (Inl e, s1) \<and>
           tt_load_gh l date_or_year week s = (Inl e, s1) \<and>
           tt_load l date_or_year week files s = (Inl e, s1)"
  proof (cases "py_lt_int v 5")
    case (Inl e)
    with tt_datasets_raises[OF rc Inl] tt_available_raises[OF rc Inl]
      tt_load_gh_raises[OF rc Inl] tt_load_raises[OF rc Inl]
    show ?thesis by simp
  next
    case (Inr b)
    with tt_datasets_returns[OF rc Inr] tt_available_returns[OF rc Inr]
      tt_load_gh_returns[OF rc Inr] tt_load_returns[OF rc Inr]
    show ?thesis by simp
  qed
  have p: "case strptime str of
      Inl e \<Rightarrow> last_tuesday utcnow (DateStr str) = Inl e
    | Inr t \<Rightarrow> True"
    by (simp add: last_tuesday_parse_error split: sum.splits)
  from returnsD[OF returns_tt_download] returnsD[OF returns_tt_download_file] rc g p
  show ?thesis by blast
qed

lemma ex_rate_check: "fst (rate_limit_check True ex_state) = Inr (PInt 60)"
  by code_simp

text \<open>
  The theorem on the example remote, whose rate budget is 60, and on a string that is no
  date.
\<close>

theorem exceptions_that_escape_witness:
  "(\<exists>r s'. tt_download ex_lib [] (FilesStr ''All'') ex_state = (Inr r, s')) \<and>
   (\<exists>r s'. tt_download_file ex_lib [] (FileIndex 0) ex_state = (Inr r, s')) \<and>
   (\<exists>r s'. tt_datasets ex_lib (PStr ''2020'') True ex_state = (Inr r, s')) \<and>
   (\<exists>r s'. tt_available ex_lib ex_state = (Inr r, s')) \<and>
   (\<exists>r s'. tt_load_gh ex_lib (PStr ''2020'') (Some 1) ex_state = (Inr r, s')) \<and>
   (\<exists>r s'. tt_load ex_lib (PStr ''2020'') (Some 1) (FilesStr ''All'') ex_state = (Inr r, s')) \<and>
   last_tuesday (midnight 2026 11 3) (DateStr ''not-a-date'') = Inl ValueError"
proof -
  have p: "strptime ''not-a-date'' = Inl ValueError" by code_simp
  from exceptions_that_escape [of ex_lib "[]" "FilesStr ''All''" ex_state "FileIndex 0"
      "PStr ''2020''" True "PStr ''2020''" "Some 1" "midnight 2026 11 3" "''not-a-date''"]
  obtain v s1 where
    a: "\<exists>r s'. tt_download ex_lib [] (FilesStr ''All'') ex_state = (Inr r, s')"
       "\<exists>r s'. tt_download_file ex_lib [] (FileIndex 0) ex_state = (Inr r, s')"
    and rc: "rate_limit_check True ex_state = (Inr v, s1)"
    and g: "case py_lt_int v 5 of
         Inr low \<Rightarrow>
           (\<exists>r s'. tt_datasets ex_lib (PStr ''2020'') True ex_state = (Inr r, s')) \<and>
           (\<exists>r s'. tt_available ex_lib ex_state = (Inr r, s')) \<and>
           (\<exists>r s'. tt_load_gh ex_lib (PStr ''2020'') (Some 1) ex_state = (Inr r, s')) \<and>
           (\<exists>r s'. tt_load ex_lib (PStr ''2020'') (Some 1) (FilesStr ''All'') ex_state = (Inr r, s'))
       | Inl e \<Rightarrow>
           tt_datasets ex_lib (PStr ''2020'') True ex_state = (Inl e, s1) \<and>
           tt_available ex_lib ex_state = (Inl e, s1) \<and>
           tt_load_gh ex_lib (PStr ''2020'') (Some 1) ex_state = (Inl e, s1) \<and>
           tt_load ex_lib (PStr ''2020'') (Some 1) (FilesStr ''All'') ex_state = (Inl e, s1)"
    and lt: "case strptime ''not-a-date'' of
      Inl e \<Rightarrow> last_tuesday (midnight 2026 11 3) (DateStr ''not-a-date'') = Inl e
    | Inr t \<Rightarrow> True"
    by blast
  from rc ex_rate_check have "v = PInt 60" by simp
  with g lt p a show ?thesis by simp
qed

text \<open>
  The claim as first stated (no operation raises; an unparseable date is only reported)
  fails: \<^verbatim>\<open>last_tuesday("not-a-date")\<close> raises \<^verbatim>\<open>ValueError\<close>.
\<close>

theorem last_tuesday_unparseable_counterexample:
  "last_tuesday (midnight 2026 11 3) (DateStr ''not-a-date'') = Inl ValueError"
  by code_simp

subsection \<open>The rate budget\<close>

lemma no_probeI: "(\<And>s. probes (snd (m s)) = probes s) \<Longrightarrow> no_probe m"
  by (simp add: no_probe_def)

lemma no_probeD: "no_probe m \<Longrightarrow> probes (snd (m s)) = probes s"
  by (simp add: no_probe_def)

lemma no_probe_ret [simp]: "no_probe (ret x)"
  by (simp add: no_probe_def ret_apply)

lemma no_probe_lift [simp]: "no_probe (lift r)"
  by (simp add: no_probe_def lift_apply)

lemma no_probe_py_print [simp]: "no_probe (py_print m)"
  by (simp add: no_probe_def probes_def py_print_apply)

lemma no_probe_requests_get [simp]: "no_probe (requests_get url)"
  by (simp add: no_probe_def probes_def requests_get_def split: pyval.splits)

lemma no_probe_bnd:
  assumes "no_probe m" and "\<And>x. no_probe (f x)"
  shows "no_probe (bnd m f)"
proof (rule no_probeI)
  fix s
  obtain r s' where ms: "m s = (r, s')" by (cases "m s")
  from no_probeD[OF assms(1), of s] ms have p: "probes s' = probes s" by simp
  show "probes (snd (bnd m f s)) = probes s"
  proof (cases r)
    case (Inl e)
    with ms p show ?thesis by (simp add: bnd_def)
  next
    case (Inr x)
    with ms p no_probeD[OF assms(2), of x s'] show ?thesis by (simp add: bnd_def)
  qed
qed


lemma no_probe_handler [simp]: "no_probe (bnd (py_print m) (\<lambda>_. ret x))"
  by (intro no_probe_bnd) simp_all

lemma no_probe_print_all [simp]: "no_probe (print_all ms)"
  by (induction ms) (simp_all add: no_probe_bnd)












lemma fst_Inr_collapse: "fst X = Inr v \<Longrightarrow> X = (Inr v, snd X)"
  by (cases X) simp








subsection \<open>The dict \<^verbatim>\<open>tt_load\<close> returns\<close>

text \<open>
  C6 (amended). When \<^verbatim>\<open>tt_load_gh\<close> returns metadata for the identifier, \<^verbatim>\<open>tt_load\<close>
  returns one flat dict: the keys \<^verbatim>\<open>date\<close>, \<^verbatim>\<open>year\<close>, \<^verbatim>\<open>readme_content\<close> and
  \<^verbatim>\<open>readme_html\<close>, then every table \<^verbatim>\<open>tt_download\<close> returned, each set under its file
  stem as a key of the same dict. There is no \<^verbatim>\<open>tables\<close> mapping, and a table whose stem
  is one of the four metadata keys takes the place of that metadata value.
\<close>

theorem tt_load_flat_dict:
  assumes "tt_load_gh l date_or_year week s = (Inr tt_data, s1)" and "tt_data \<noteq> []"
    and "tt_download l tt_data files s1 = (Inr data, s2)"
  shows "\<exists>date year fs rc result.
     tt_data = [(''date'', PStr date), (''year'', PStr year), (''files'', PList fs),
                (''readme_content'', PStr rc), (''readme_html'', PStr (markdown_to_html l rc))] \<and>
     tt_load l date_or_year week files s = (Inr result, s2) \<and>
     result = foldl (\<lambda>result (key, df). AList.update key (Frame df) result)
               [(''date'', Meta (PStr date)), (''year'', Meta (PStr year)),
                (''readme_content'', Meta (PStr rc)),
                (''readme_html'', Meta (PStr (markdown_to_html l rc)))] data \<and>
     (\<forall>k. map_of result k =
        (case map_of (rev data) k of
           Some df \<Rightarrow> Some (Frame df)
         | None \<Rightarrow> map_of [(''date'', Meta (PStr date)), (''year'', Meta (PStr year)),
                (''readme_content'', Meta (PStr rc)),
                (''readme_html'', Meta (PStr (markdown_to_html l rc)))] k))"
proof -
  from tt_load_result[OF assms] obtain date year fs rc where
    r: "tt_data = [(''date'', PStr date), (''year'', PStr year), (''files'', PList fs),
                (''readme_content'', PStr rc), (''readme_html'', PStr (markdown_to_html l rc))]"
     "tt_load l date_or_year week files s =
       (Inr (foldl (\<lambda>result (key, df). AList.update key (Frame df) result)
               [(''date'', Meta (PStr date)), (''year'', Meta (PStr year)),
                (''readme_content'', Meta (PStr rc)),
                (''readme_html'', Meta (PStr (markdown_to_html l rc)))] data), s2)"
    by blast
  show ?thesis
    apply (rule exI[of _ date], rule exI[of _ year], rule exI[of _ fs], rule exI[of _ rc])
    apply (rule exI[of _ "foldl (\<lambda>result (key, df). AList.update key (Frame df) result)
               [(''date'', Meta (PStr date)), (''year'', Meta (PStr year)),
                (''readme_content'', Meta (PStr rc)),
                (''readme_html'', Meta (PStr (markdown_to_html l rc)))] data"])
    using r map_of_foldl_update[of Frame _ data] by simp
qed

lemma ex_tt_load_gh:
  "fst (tt_load_gh ex_lib (PStr ''2020-01-07'') None ex_state) = Inr ex_meta"
  by code_simp

lemma ex_tt_download:
  "fst (tt_download ex_lib ex_meta (FilesStr ''All'')
          (snd (tt_load_gh ex_lib (PStr ''2020-01-07'') None ex_state))) =
     Inr [(''data'', ex_table_cd), (''date'', ex_table_ab)]"
  by code_simp

text \<open>
  The theorem on the example remote, whose folder 2020-01-07 holds data.csv, data.tsv,
  date.csv and notes.xyz.
\<close>

theorem tt_load_flat_dict_witness:
  "fst (tt_load_gh ex_lib (PStr ''2020-01-07'') None ex_state) = Inr ex_meta \<and>
   ex_meta \<noteq> [] \<and>
   fst (tt_download ex_lib ex_meta (FilesStr ''All'')
          (snd (tt_load_gh ex_lib (PStr ''2020-01-07'') None ex_state))) =
     Inr [(''data'', ex_table_cd), (''date'', ex_table_ab)] \<and>
   (\<exists>date year fs rc result.
     ex_meta = [(''date'', PStr date), (''year'', PStr year), (''files'', PList fs),
                (''readme_content'', PStr rc),
                (''readme_html'', PStr (markdown_to_html ex_lib rc))] \<and>
     tt_load ex_lib (PStr ''2020-01-07'') None (FilesStr ''All'') ex_state =
       (Inr result,
        snd (tt_download ex_lib ex_meta (FilesStr ''All'')
               (snd (tt_load_gh ex_lib (PStr ''2020-01-07'') None ex_state)))) \<and>
     result = foldl (\<lambda>result (key, df). AList.update key (Frame df) result)
               [(''date'', Meta (PStr date)), (''year'', Meta (PStr year)),
                (''readme_content'', Meta (PStr rc)),
                (''readme_html'', Meta (PStr (markdown_to_html ex_lib rc)))]
               [(''data'', ex_table_cd), (''date'', ex_table_ab)] \<and>
     (\<forall>k. map_of result k =
        (case map_of (rev [(''data'', ex_table_cd), (''date'', ex_table_ab)]) k of
           Some df \<Rightarrow> Some (Frame df)
         | None \<Rightarrow> map_of [(''date'', Meta (PStr date)), (''year'', Meta (PStr year)),
                (''readme_content'', Meta (PStr rc)),
                (''readme_html'', Meta (PStr (markdown_to_html ex_lib rc)))] k)))"
proof -
  have ne: "ex_meta \<noteq> []" by (simp add: ex_meta_def)
  note gh = fst_Inr_collapse[OF ex_tt_load_gh]
  note dl = fst_Inr_collapse[OF ex_tt_download]
  from tt_load_flat_dict [OF gh ne dl] ex_tt_load_gh ne ex_tt_download
  show ?thesis by blast
qed

text \<open>
  The claim as first stated fails there: the result has no key \<^verbatim>\<open>tables\<close>, the table of
  data.tsv stands at the top-level key \<^verbatim>\<open>data\<close>, and the table of date.csv has replaced
  the date.
\<close>

theorem tt_load_tables_counterexample:
  "fst (tt_load ex_lib (PStr ''2020-01-07'') None (FilesStr ''All'') ex_state) =
     Inr [(''date'', Frame ex_table_ab), (''year'', Meta (PStr ''2020'')),
          (''readme_content'', Meta (PStr (''# Passwords'' @ [CHR 0x0A]))),
          (''readme_html'', Meta (PStr (''<body># Passwords'' @ [CHR 0x0A] @ ''</body>''))),
          (''data'', Frame ex_table_cd)] \<and>
   map_of [(''date'', Frame ex_table_ab), (''year'', Meta (PStr ''2020'')),
          (''readme_content'', Meta (PStr (''# Passwords'' @ [CHR 0x0A]))),
          (''readme_html'', Meta (PStr (''<body># Passwords'' @ [CHR 0x0A] @ ''</body>''))),
          (''data'', Frame ex_table_cd)] ''tables'' = None"
  by code_simp

subsection \<open>The listing of a year\<close>

lemma datasets_loop_entries:
  assumes "datasets_loop year folders acc s = (Inr ds, s')"
    and "\<forall>d\<in>set acc. is_date_name (ds_date d) \<and> ds_path d = year @ ''/'' @ ds_date d"
  shows "\<forall>d\<in>set ds. is_date_name (ds_date d) \<and> ds_path d = year @ ''/'' @ ds_date d"
  using assms
proof (induction folders arbitrary: acc s)
  case Nil
  then show ?case by (simp add: run_simps)
next
  case (Cons folder folders)
  from Cons.prems(1) show ?case
    apply (simp add: bnd_apply run_simps Let_def split: prod.splits sum.splits if_splits)
    using Cons.IH Cons.prems(2) by fastforce+
qed


lemma tt_datasets_body_result:
  assumes "try_except
         (let year = py_str l year in
          bnd (requests_get (PStr (GITHUB_API_URL @ ''/'' @ year))) (\<lambda>response.
          if status_code response \<noteq> 200
          then bnd (py_print (Msg_error_fetching_year year (status_code response))) (\<lambda>_. ret [])
          else
            bnd (lift (resp_json response)) (\<lambda>data.
            bnd (lift (bindE (py_iter data) (filter_type ''dir''))) (\<lambda>folders.
            bnd (datasets_loop year folders []) (\<lambda>datasets.
            let datasets = sort_key ds_date datasets in
            bnd (if print_output
                 then print_all (Msg_datasets_header year # Msg_datasets_rule #
                        map (\<lambda>d. Msg_dataset_line (ds_date d) (ds_title d)) datasets)
                 else ret ()) (\<lambda>_.
            ret datasets))))))
         (\<lambda>e. bnd (py_print (Msg_error e)) (\<lambda>_. ret [])) s1 = (Inr datasets, s')"
  shows "datasets = [] \<or>
         (\<exists>ds s2 s3 folders. datasets_loop (py_str l year) folders [] s2 = (Inr ds, s3) \<and>
                    datasets = sort_key ds_date ds)"
  using assms
  by (auto simp: try_except_apply bnd_apply run_simps Let_def
        split: prod.splits sum.splits if_splits)

lemma tt_datasets_result:
  assumes "tt_datasets l year print_output s = (Inr datasets, s')"
  shows "datasets = [] \<or>
         (\<exists>ds s2 s3 folders. datasets_loop (py_str l year) folders [] s2 = (Inr ds, s3) \<and>
                    datasets = sort_key ds_date ds)"
proof -
  obtain v s1 where rc: "rate_limit_check True s = (Inr v, s1)"
    using rate_limit_check_returns by blast
  show ?thesis
  proof (cases "py_lt_int v 5")
    case (Inl e)
    with assms rc show ?thesis by (simp add: tt_datasets_def bnd_apply run_simps)
  next
    case (Inr low)
    show ?thesis
    proof (cases low)
      case True
      with assms rc Inr show ?thesis by (simp add: tt_datasets_def bnd_apply run_simps)
    next
      case False
      with assms rc Inr show ?thesis
        by (intro tt_datasets_body_result[of l year print_output s1 datasets s'])
           (simp add: tt_datasets_def bnd_apply run_simps)
    qed
  qed
qed

lemma tt_datasets_sorted_entries:
  assumes "tt_datasets l year print_output s = (Inr datasets, s')"
  shows "sorted (map ds_date datasets)"
    and "\<forall>d\<in>set datasets. is_date_name (ds_date d) \<and>
                           ds_path d = py_str l year @ ''/'' @ ds_date d"
proof -
  from tt_datasets_result[OF assms] consider "datasets = []"
    | ds s2 s3 folders where "datasets_loop (py_str l year) folders [] s2 = (Inr ds, s3)"
        "datasets = sort_key ds_date ds"
    by blast
  then have "sorted (map ds_date datasets) \<and>
     (\<forall>d\<in>set datasets. is_date_name (ds_date d) \<and>
                           ds_path d = py_str l year @ ''/'' @ ds_date d)"
  proof cases
    case 1
    then show ?thesis by simp
  next
    case 2
    from datasets_loop_entries[OF 2(1)] 2(2) show ?thesis
      by (simp add: sorted_sort_key)
  qed
  then show "sorted (map ds_date datasets)"
    and "\<forall>d\<in>set datasets. is_date_name (ds_date d) \<and>
                           ds_path d = py_str l year @ ''/'' @ ds_date d"
    by simp_all
qed





subsection \<open>Resolving a week number\<close>

lemma locate_week:
  assumes "tt_datasets l (PStr (py_str l year)) False s1 = (Inr datasets, s2)"
  shows "locate l year (Some k) s1 =
     (if datasets = []
      then (Inr None, s2\<lparr>log := log s2 @ [Print (Msg_no_datasets (py_str l year))]\<rparr>)
      else if k < 1 \<or> k > int (length datasets)
      then (Inr None, s2\<lparr>log := log s2 @ [Print (Msg_week_out_of_range k (py_str l year))]\<rparr>)
      else (Inr (Some (py_str l year, ds_date (datasets ! nat (k - 1)))), s2))"
  using assms by (simp add: locate_def Let_def bnd_apply run_simps)

lemma tt_load_gh_week:
  assumes rc: "rate_limit_check True s = (Inr v, s1)" and ok: "py_lt_int v 5 = Inr False"
    and ds: "tt_datasets l (PStr (py_str l year)) False s1 = (Inr datasets, s2)"
  shows "tt_load_gh l year (Some k) s =
     (if datasets = []
      then (Inr [], s2\<lparr>log := log s2 @ [Print (Msg_no_datasets (py_str l year))]\<rparr>)
      else if k < 1 \<or> k > int (length datasets)
      then (Inr [], s2\<lparr>log := log s2 @ [Print (Msg_week_out_of_range k (py_str l year))]\<rparr>)
      else try_except (fetch_week l (py_str l year) (ds_date (datasets ! nat (k - 1))))
             (\<lambda>e. bnd (py_print (Msg_error e)) (\<lambda>_. ret [])) s2)"
  unfolding tt_load_gh_def rate_guard_Inr[OF rc ok]
  by (simp add: try_except_apply bnd_apply locate_week[OF ds] run_simps)

lemma try_fetch_week_result:
  assumes "try_except (fetch_week l year date) (\<lambda>e. bnd (py_print (Msg_error e)) (\<lambda>_. ret [])) s
             = (Inr d, s')"
    and "d \<noteq> []"
  shows "map_of d ''date'' = Some (PStr date) \<and> map_of d ''year'' = Some (PStr year)"
proof -
  from assms obtain s2 where "fetch_week l year date s = (Inr d, s2)"
    by (auto simp: try_except_apply run_simps split: prod.splits sum.splits)
  from fetch_week_result[OF this assms(2)] show ?thesis by auto
qed

text \<open>
  C2. \<^verbatim>\<open>tt_load_gh\<close> with a week number \<open>k\<close>, once its rate check has passed, lists the
  year with \<^verbatim>\<open>tt_datasets\<close>; the listing is sorted by date. An empty listing ends the call
  with the message "No datasets found" and the empty dict. On a listing of length \<open>N > 0\<close>,
  every \<open>k\<close> outside \<open>[1, N]\<close> (so \<open>k = 0\<close> and \<open>k = N + 1\<close>) ends it with the message
  "out of range" and the empty dict, with no request for a folder; every \<open>k\<close> in \<open>[1, N]\<close>
  resolves to the date of entry \<open>k - 1\<close> (the \<open>k\<close>-th, counting from 1), the folder fetched
  is the one of that year and date, and metadata that comes back carries that date.
\<close>

theorem week_number_resolution:
  assumes "rate_limit_check True s = (Inr v, s1)" and "py_lt_int v 5 = Inr False"
    and "tt_datasets l (PStr (py_str l year)) False s1 = (Inr datasets, s2)"
  shows "sorted (map ds_date datasets) \<and>
    (datasets = [] \<longrightarrow>
       tt_load_gh l year (Some k) s =
         (Inr [], s2\<lparr>log := log s2 @ [Print (Msg_no_datasets (py_str l year))]\<rparr>)) \<and>
    (datasets \<noteq> [] \<and> (k < 1 \<or> k > int (length datasets)) \<longrightarrow>
       tt_load_gh l year (Some k) s =
         (Inr [], s2\<lparr>log := log s2 @ [Print (Msg_week_out_of_range k (py_str l year))]\<rparr>)) \<and>
    (datasets \<noteq> [] \<and> 1 \<le> k \<and> k \<le> int (length datasets) \<longrightarrow>
       locate l year (Some k) s1 =
         (Inr (Some (py_str l year, ds_date (datasets ! nat (k - 1)))), s2) \<and>
       tt_load_gh l year (Some k) s =
         try_except (fetch_week l (py_str l year) (ds_date (datasets ! nat (k - 1))))
           (\<lambda>e. bnd (py_print (Msg_error e)) (\<lambda>_. ret [])) s2 \<and>
       (\<forall>d s'. tt_load_gh l year (Some k) s = (Inr d, s') \<and> d \<noteq> [] \<longrightarrow>
          map_of d ''date'' = Some (PStr (ds_date (datasets ! nat (k - 1)))) \<and>
          map_of d ''year'' = Some (PStr (py_str l year))))"
proof -
  note gh = tt_load_gh_week[OF assms, of k]
  have a: "sorted (map ds_date datasets)"
    using tt_datasets_sorted_entries(1)[OF assms(3)] .
  have b: "datasets = [] \<longrightarrow>
       tt_load_gh l year (Some k) s =
         (Inr [], s2\<lparr>log := log s2 @ [Print (Msg_no_datasets (py_str l year))]\<rparr>)"
    using gh by simp
  have c: "datasets \<noteq> [] \<and> (k < 1 \<or> k > int (length datasets)) \<longrightarrow>
       tt_load_gh l year (Some k) s =
         (Inr [], s2\<lparr>log := log s2 @ [Print (Msg_week_out_of_range k (py_str l year))]\<rparr>)"
    using gh by simp
  have d: "datasets \<noteq> [] \<and> 1 \<le> k \<and> k \<le> int (length datasets) \<longrightarrow>
       locate l year (Some k) s1 =
         (Inr (Some (py_str l year, ds_date (datasets ! nat (k - 1)))), s2) \<and>
       tt_load_gh l year (Some k) s =
         try_except (fetch_week l (py_str l year) (ds_date (datasets ! nat (k - 1))))
           (\<lambda>e. bnd (py_print (Msg_error e)) (\<lambda>_. ret [])) s2 \<and>
       (\<forall>d s'. tt_load_gh l year (Some k) s = (Inr d, s') \<and> d \<noteq> [] \<longrightarrow>
          map_of d ''date'' = Some (PStr (ds_date (datasets ! nat (k - 1)))) \<and>
          map_of d ''year'' = Some (PStr (py_str l year)))"
  proof (intro impI)
    assume h: "datasets \<noteq> [] \<and> 1 \<le> k \<and> k \<le> int (length datasets)"
    then have g: "tt_load_gh l year (Some k) s =
         try_except (fetch_week l (py_str l year) (ds_date (datasets ! nat (k - 1))))
           (\<lambda>e. bnd (py_print (Msg_error e)) (\<lambda>_. ret [])) s2"
      using gh by simp
    have lo: "locate l year (Some k) s1 =
         (Inr (Some (py_str l year, ds_date (datasets ! nat (k - 1)))), s2)"
      using h locate_week[OF assms(3), of k] by simp
    have r: "\<forall>d s'. tt_load_gh l year (Some k) s = (Inr d, s') \<and> d \<noteq> [] \<longrightarrow>
          map_of d ''date'' = Some (PStr (ds_date (datasets ! nat (k - 1)))) \<and>
          map_of d ''year'' = Some (PStr (py_str l year))"
      unfolding g using try_fetch_week_result by blast
    from lo g r show "locate l year (Some k) s1 =
         (Inr (Some (py_str l year, ds_date (datasets ! nat (k - 1)))), s2) \<and>
       tt_load_gh l year (Some k) s =
         try_except (fetch_week l (py_str l year) (ds_date (datasets ! nat (k - 1))))
           (\<lambda>e. bnd (py_print (Msg_error e)) (\<lambda>_. ret [])) s2 \<and>
       (\<forall>d s'. tt_load_gh l year (Some k) s = (Inr d, s') \<and> d \<noteq> [] \<longrightarrow>
          map_of d ''date'' = Some (PStr (ds_date (datasets ! nat (k - 1)))) \<and>
          map_of d ''year'' = Some (PStr (py_str l year)))"
      by blast
  qed
  from a b c d show ?thesis by blast
qed

lemma ex_datasets_after_check:
  "fst (tt_datasets ex_lib (PStr ''2020'') False (snd (rate_limit_check True ex_state))) =
     Inr [\<lparr>ds_date = ''2019-12-31'', ds_title = ''Unknown'', ds_path = ''2020/2019-12-31''\<rparr>,
          \<lparr>ds_date = ''2020-01-07'', ds_title = ''Passwords'', ds_path = ''2020/2020-01-07''\<rparr>,
          \<lparr>ds_date = ''2020-01-14'', ds_title = ''Unknown'', ds_path = ''2020/2020-01-14''\<rparr>]"
  by code_simp

lemma ex_datasets_2021:
  "fst (tt_datasets ex_lib (PStr ''2021'') False (snd (rate_limit_check True ex_state))) = Inr []"
  by code_simp

lemma ex_week_2: "fst (tt_load_gh ex_lib (PStr ''2020'') (Some 2) ex_state) = Inr ex_meta"
  by code_simp

text \<open>
  The theorem on the example remote: week 2 of 2020 is 2020-01-07, weeks 0 and 4 are out
  of range, and 2021 has no datasets.
\<close>

theorem week_number_resolution_witness:
  "locate ex_lib (PStr ''2020'') (Some 2) (snd (rate_limit_check True ex_state)) =
     (Inr (Some (''2020'', ''2020-01-07'')),
      snd (tt_datasets ex_lib (PStr ''2020'') False (snd (rate_limit_check True ex_state)))) \<and>
   fst (tt_load_gh ex_lib (PStr ''2020'') (Some 2) ex_state) = Inr ex_meta \<and>
   map_of ex_meta ''date'' = Some (PStr ''2020-01-07'') \<and>
   tt_load_gh ex_lib (PStr ''2020'') (Some 0) ex_state =
     (Inr [], snd (tt_datasets ex_lib (PStr ''2020'') False (snd (rate_limit_check True ex_state)))
        \<lparr>log := log (snd (tt_datasets ex_lib (PStr ''2020'') False
                           (snd (rate_limit_check True ex_state)))) @
                [Print (Msg_week_out_of_range 0 ''2020'')]\<rparr>) \<and>
   tt_load_gh ex_lib (PStr ''2020'') (Some 4) ex_state =
     (Inr [], snd (tt_datasets ex_lib (PStr ''2020'') False (snd (rate_limit_check True ex_state)))
        \<lparr>log := log (snd (tt_datasets ex_lib (PStr ''2020'') False
                           (snd (rate_limit_check True ex_state)))) @
                [Print (Msg_week_out_of_range 4 ''2020'')]\<rparr>) \<and>
   tt_load_gh ex_lib (PStr ''2021'') (Some 1) ex_state =
     (Inr [], snd (tt_datasets ex_lib (PStr ''2021'') False (snd (rate_limit_check True ex_state)))
        \<lparr>log := log (snd (tt_datasets ex_lib (PStr ''2021'') False
                           (snd (rate_limit_check True ex_state)))) @
                [Print (Msg_no_datasets ''2021'')]\<rparr>)"
proof -
  note rc = fst_Inr_collapse[OF ex_rate_check]
  have ok: "py_lt_int (PInt 60) 5 = Inr False" by simp
  have y: "py_str ex_lib (PStr ''2020'') = ''2020''" "py_str ex_lib (PStr ''2021'') = ''2021''"
    by (simp_all add: py_str_def)
  have ds: "tt_datasets ex_lib (PStr (py_str ex_lib (PStr ''2020''))) False
              (snd (rate_limit_check True ex_state)) =
            (Inr [\<lparr>ds_date = ''2019-12-31'', ds_title = ''Unknown'', ds_path = ''2020/2019-12-31''\<rparr>,
          \<lparr>ds_date = ''2020-01-07'', ds_title = ''Passwords'', ds_path = ''2020/2020-01-07''\<rparr>,
          \<lparr>ds_date = ''2020-01-14'', ds_title = ''Unknown'', ds_path = ''2020/2020-01-14''\<rparr>],
             snd (tt_datasets ex_lib (PStr ''2020'') False (snd (rate_limit_check True ex_state))))"
    unfolding y using fst_Inr_collapse[OF ex_datasets_after_check] .
  have ds21: "tt_datasets ex_lib (PStr (py_str ex_lib (PStr ''2021''))) False
              (snd (rate_limit_check True ex_state)) =
            (Inr [], snd (tt_datasets ex_lib (PStr ''2021'') False (snd (rate_limit_check True ex_state))))"
    unfolding y using fst_Inr_collapse[OF ex_datasets_2021] .
  have m: "map_of ex_meta ''date'' = Some (PStr ''2020-01-07'')" by (simp add: ex_meta_def)
  from week_number_resolution [OF rc ok ds, of 2] week_number_resolution [OF rc ok ds, of 0]
    week_number_resolution [OF rc ok ds, of 4] week_number_resolution [OF rc ok ds21, of 1]
    ex_week_2 m
  show ?thesis by (simp add: y)
qed

subsection \<open>Choosing the reader\<close>

lemma requests_get_ok:
  assumes "net s (clock s) url = Inr response"
  shows "requests_get (PStr url) s =
           (Inr response, s\<lparr>clock := clock s + 1, log := log s @ [HttpGet url]\<rparr>)"
  using assms by (simp add: requests_get_def)









subsection \<open>The download loop\<close>

lemma bnd_assoc: "bnd (bnd m f) g = bnd m (\<lambda>x. bnd (f x) g)"
  by (auto simp: bnd_def fun_eq_iff split: prod.splits sum.splits)

lemma bnd_if: "bnd (if c then a else b) g = (if c then bnd a g else bnd b g)"
  by simp











subsection \<open>Selectors\<close>

lemma log_blindI:
  "(\<And>s t. same_but_log s t \<Longrightarrow> fst (m s) = fst (m t) \<and> same_but_log (snd (m s)) (snd (m t)))
   \<Longrightarrow> log_blind m"
  by (simp add: log_blind_def)

lemma log_blindD:
  "log_blind m \<Longrightarrow> same_but_log s t \<Longrightarrow>
     fst (m s) = fst (m t) \<and> same_but_log (snd (m s)) (snd (m t))"
  by (simp add: log_blind_def)

lemma log_blind_ret [simp]: "log_blind (ret x)"
  by (simp add: log_blind_def ret_apply)

lemma log_blind_lift [simp]: "log_blind (lift r)"
  by (simp add: log_blind_def lift_apply)

lemma log_blind_py_print [simp]: "log_blind (py_print m)"
  by (simp add: log_blind_def py_print_apply same_but_log_def)

lemma log_blind_requests_get [simp]: "log_blind (requests_get url)"
  by (simp add: log_blind_def requests_get_def same_but_log_def split: pyval.splits)

lemma log_blind_bnd:
  assumes "log_blind m" and "\<And>x. log_blind (f x)"
  shows "log_blind (bnd m f)"
proof (rule log_blindI)
  fix s t assume st: "same_but_log s t"
  obtain r s' where ms: "m s = (r, s')" by (cases "m s")
  obtain r' t' where mt: "m t = (r', t')" by (cases "m t")
  from log_blindD[OF assms(1) st] ms mt have rr: "r' = r" and st': "same_but_log s' t'" by simp_all
  show "fst (bnd m f s) = fst (bnd m f t) \<and> same_but_log (snd (bnd m f s)) (snd (bnd m f t))"
  proof (cases r)
    case (Inl e)
    with ms mt rr st' show ?thesis by (simp add: bnd_def)
  next
    case (Inr x)
    with ms mt rr log_blindD[OF assms(2) st', of x] show ?thesis by (simp add: bnd_def)
  qed
qed

lemma log_blind_try:
  assumes "log_blind m" and "\<And>e. log_blind (h e)"
  shows "log_blind (try_except m h)"
proof (rule log_blindI)
  fix s t assume st: "same_but_log s t"
  obtain r s' where ms: "m s = (r, s')" by (cases "m s")
  obtain r' t' where mt: "m t = (r', t')" by (cases "m t")
  from log_blindD[OF assms(1) st] ms mt have rr: "r' = r" and st': "same_but_log s' t'" by simp_all
  show "fst (try_except m h s) = fst (try_except m h t) \<and>
        same_but_log (snd (try_except m h s)) (snd (try_except m h t))"
  proof (cases r)
    case (Inl e)
    with ms mt rr log_blindD[OF assms(2) st', of e] show ?thesis by (simp add: try_except_def)
  next
    case (Inr x)
    with ms mt rr st' show ?thesis by (simp add: try_except_def)
  qed
qed

lemma log_blind_download_loop: "log_blind (download_loop l files result)"
proof (induction files arbitrary: result)
  case Nil
  then show ?case by simp
next
  case (Cons file_info files)
  show ?case
    by (auto simp: Let_def Cons.IH intro!: log_blind_bnd split: sum.splits option.splits)
qed

lemma has_name_truthy: "has_name f \<Longrightarrow> getitem f ''name'' = Inr v \<Longrightarrow> truthy f"
  by (cases f) (auto split: option.splits)

lemma find_by_name_named:
  assumes "list_all has_name fs"
  shows "find_by_name fs name = Inr (case find (named name) fs of Some f \<Rightarrow> f | None \<Rightarrow> PNone)"
  using assms
proof (induction fs)
  case Nil
  then show ?case by simp
next
  case (Cons f fs)
  then show ?case
    by (auto simp: has_name_def named_def bindE_def split: sum.splits)
qed

lemma find_named_truthy:
  assumes "list_all has_name fs" and "find (named name) fs = Some f"
  shows "truthy f"
proof -
  from assms(2) have "named name f" and "f \<in> set fs"
    by (auto simp: find_Some_iff in_set_conv_nth)
  with assms(1) show ?thesis
    by (auto simp: list_all_iff named_def intro: has_name_truthy)
qed

lemma select_loop_named:
  assumes "list_all has_name fs"
  shows "select_loop (PList fs) names acc s =
     (Inr (acc @ List.map_filter (\<lambda>n. find (named n) fs) names),
      s\<lparr>log := log s @ map (\<lambda>n. Print (Msg_warning_not_found n))
                          (filter (\<lambda>n. find (named n) fs = None) names)\<rparr>)"
proof (induction names arbitrary: acc s)
  case Nil
  then show ?case by (simp add: run_simps List.map_filter_simps)
next
  case (Cons n names)
  show ?case
  proof (cases "find (named n) fs")
    case None
    then show ?thesis
      by (simp add: bnd_apply run_simps bindE_def find_by_name_named[OF assms] Cons.IH
            List.map_filter_simps)
  next
    case (Some f)
    with find_named_truthy[OF assms Some] show ?thesis
      by (simp add: bnd_apply run_simps bindE_def find_by_name_named[OF assms] Cons.IH
            List.map_filter_simps)
  qed
qed

lemma tt_download_selected:
  assumes files: "map_of tt_data ''files'' = Some (PList fs)" and wf: "list_all has_name fs"
    and sel: "files_arg = FilesList names \<or> (files_arg = FilesStr n \<and> n \<noteq> ''All'' \<and> names = [n])"
  shows "tt_download l tt_data files_arg s =
     try_except (download_loop l (List.map_filter (\<lambda>n. find (named n) fs) names) [])
       (\<lambda>e. bnd (py_print (Msg_error_downloading_files e)) (\<lambda>_. ret []))
       (s\<lparr>log := log s @ map (\<lambda>n. Print (Msg_warning_not_found n))
                           (filter (\<lambda>n. find (named n) fs = None) names)\<rparr>)"
proof -
  from files have ne: "tt_data \<noteq> []" by auto
  from sel have a: "files_arg \<noteq> FilesStr ''All''"
    and b: "(case files_arg of FilesStr s \<Rightarrow> [s] | FilesList names \<Rightarrow> names) = names"
    by auto
  show ?thesis
    using files ne a
    by (simp add: tt_download_def try_except_apply bnd_apply run_simps b
          select_loop_named[OF wf])
qed

lemma map_filter_present:
  "List.map_filter g (filter (\<lambda>n. g n \<noteq> None) names) = List.map_filter g names"
  by (induction names) (auto simp: List.map_filter_simps)

lemma filter_absent_present: "filter (\<lambda>n. g n = None) (filter (\<lambda>n. g n \<noteq> None) names) = []"
  by (induction names) auto

lemma log_blind_download_try:
  "log_blind (try_except (download_loop l fs [])
                (\<lambda>e. bnd (py_print (Msg_error_downloading_files e)) (\<lambda>_. ret [])))"
  by (intro log_blind_try log_blind_download_loop log_blind_bnd) simp_all

text \<open>
  C5. For metadata whose \<^verbatim>\<open>files\<close> all have a name: a selector that is one name no file
  has makes \<^verbatim>\<open>tt_download\<close> return the empty dict after one warning "File ... not found";
  and for every selector list, the files downloaded are those the names match, in the order
  of the selector, after one warning for each unmatched name, so that the returned dict is
  the one the selector without its unmatched names gives.
\<close>

theorem unmatched_selector_names:
  assumes "map_of tt_data ''files'' = Some (PList fs)" and "list_all has_name fs"
  shows
   "(find (named name) fs = None \<longrightarrow>
       tt_download l tt_data (FilesList [name]) s =
         (Inr [], s\<lparr>log := log s @ [Print (Msg_warning_not_found name)]\<rparr>) \<and>
       (name \<noteq> ''All'' \<longrightarrow>
          tt_download l tt_data (FilesStr name) s =
            (Inr [], s\<lparr>log := log s @ [Print (Msg_warning_not_found name)]\<rparr>))) \<and>
    tt_download l tt_data (FilesList names) s =
      try_except (download_loop l (List.map_filter (\<lambda>n. find (named n) fs) names) [])
        (\<lambda>e. bnd (py_print (Msg_error_downloading_files e)) (\<lambda>_. ret []))
        (s\<lparr>log := log s @ map (\<lambda>n. Print (Msg_warning_not_found n))
                            (filter (\<lambda>n. find (named n) fs = None) names)\<rparr>) \<and>
    fst (tt_download l tt_data (FilesList names) s) =
      fst (tt_download l tt_data
             (FilesList (filter (\<lambda>n. find (named n) fs \<noteq> None) names)) s)"
proof -
  let ?h = "\<lambda>e. bnd (py_print (Msg_error_downloading_files e)) (\<lambda>_. ret [])"
  let ?g = "\<lambda>n. find (named n) fs"
  have one: "find (named name) fs = None \<longrightarrow>
       tt_download l tt_data (FilesList [name]) s =
         (Inr [], s\<lparr>log := log s @ [Print (Msg_warning_not_found name)]\<rparr>) \<and>
       (name \<noteq> ''All'' \<longrightarrow>
          tt_download l tt_data (FilesStr name) s =
            (Inr [], s\<lparr>log := log s @ [Print (Msg_warning_not_found name)]\<rparr>))"
  proof (intro impI conjI)
    assume none: "find (named name) fs = None"
    show "tt_download l tt_data (FilesList [name]) s =
         (Inr [], s\<lparr>log := log s @ [Print (Msg_warning_not_found name)]\<rparr>)"
      using tt_download_selected[OF assms, of "FilesList [name]" "[name]" name l s] none
      by (simp add: List.map_filter_simps try_except_apply run_simps)
    assume "name \<noteq> ''All''"
    then show "tt_download l tt_data (FilesStr name) s =
         (Inr [], s\<lparr>log := log s @ [Print (Msg_warning_not_found name)]\<rparr>)"
      using tt_download_selected[OF assms, of "FilesStr name" "[name]" name l s] none
      by (simp add: List.map_filter_simps try_except_apply run_simps)
  qed
  have all: "tt_download l tt_data (FilesList names) s =
      try_except (download_loop l (List.map_filter ?g names) []) ?h
        (s\<lparr>log := log s @ map (\<lambda>n. Print (Msg_warning_not_found n))
                            (filter (\<lambda>n. ?g n = None) names)\<rparr>)"
    using tt_download_selected[OF assms, of "FilesList names" names undefined l s] by simp
  have present: "tt_download l tt_data (FilesList (filter (\<lambda>n. ?g n \<noteq> None) names)) s =
      try_except (download_loop l (List.map_filter ?g names) []) ?h s"
    using tt_download_selected[OF assms, of "FilesList (filter (\<lambda>n. ?g n \<noteq> None) names)"
            "filter (\<lambda>n. ?g n \<noteq> None) names" undefined l s,
            unfolded map_filter_present filter_absent_present]
    by (simp del: not_None_eq)
  have "same_but_log
          (s\<lparr>log := log s @ map (\<lambda>n. Print (Msg_warning_not_found n))
                            (filter (\<lambda>n. ?g n = None) names)\<rparr>) s"
    by (simp add: same_but_log_def)
  from log_blindD[OF log_blind_download_try this]
  have same: "fst (tt_download l tt_data (FilesList names) s) =
      fst (tt_download l tt_data (FilesList (filter (\<lambda>n. ?g n \<noteq> None) names)) s)"
    unfolding all present by simp
  from one all same show ?thesis by simp
qed

lemma ex_selected:
  "fst (tt_download ex_lib ex_meta (FilesList [''data.tsv'']) ex_state) =
     Inr [(''data'', ex_table_cd)]"
  by code_simp

text \<open>
  The theorem on the example metadata with the selectors missing.csv and
  missing.csv, data.tsv.
\<close>

theorem unmatched_selector_names_witness:
  "find (named ''missing.csv'')
     [ex_file ''data.csv'', ex_file ''data.tsv'', ex_file ''date.csv'', ex_file ''notes.xyz''] = None \<and>
   tt_download ex_lib ex_meta (FilesList [''missing.csv'']) ex_state =
     (Inr [], ex_state\<lparr>log := log ex_state @ [Print (Msg_warning_not_found ''missing.csv'')]\<rparr>) \<and>
   tt_download ex_lib ex_meta (FilesStr ''missing.csv'') ex_state =
     (Inr [], ex_state\<lparr>log := log ex_state @ [Print (Msg_warning_not_found ''missing.csv'')]\<rparr>) \<and>
   tt_download ex_lib ex_meta (FilesList [''missing.csv'', ''data.tsv'']) ex_state =
     try_except (download_loop ex_lib [ex_file ''data.tsv''] [])
        (\<lambda>e. bnd (py_print (Msg_error_downloading_files e)) (\<lambda>_. ret []))
        (ex_state\<lparr>log := log ex_state @ [Print (Msg_warning_not_found ''missing.csv'')]\<rparr>) \<and>
   fst (tt_download ex_lib ex_meta (FilesList [''missing.csv'', ''data.tsv'']) ex_state) =
     Inr [(''data'', ex_table_cd)]"
proof -
  have files: "map_of ex_meta ''files'' =
      Some (PList [ex_file ''data.csv'', ex_file ''data.tsv'', ex_file ''date.csv'',
                   ex_file ''notes.xyz''])"
    by (simp add: ex_meta_def)
  have wf: "list_all has_name
      [ex_file ''data.csv'', ex_file ''data.tsv'', ex_file ''date.csv'', ex_file ''notes.xyz'']"
    by (simp add: has_name_def ex_file_def)
  have f: "find (named ''missing.csv'')
     [ex_file ''data.csv'', ex_file ''data.tsv'', ex_file ''date.csv'', ex_file ''notes.xyz''] = None"
     "find (named ''data.tsv'')
     [ex_file ''data.csv'', ex_file ''data.tsv'', ex_file ''date.csv'', ex_file ''notes.xyz''] =
       Some (ex_file ''data.tsv'')"
    by (simp_all add: named_def ex_file_def)
  note T = unmatched_selector_names [OF files wf, of "''missing.csv''" ex_lib ex_state
         "[''missing.csv'', ''data.tsv'']"]
  from T [THEN conjunct1] f(1)
  have a: "tt_download ex_lib ex_meta (FilesList [''missing.csv'']) ex_state =
     (Inr [], ex_state\<lparr>log := log ex_state @ [Print (Msg_warning_not_found ''missing.csv'')]\<rparr>)"
    and b: "tt_download ex_lib ex_meta (FilesStr ''missing.csv'') ex_state =
     (Inr [], ex_state\<lparr>log := log ex_state @ [Print (Msg_warning_not_found ''missing.csv'')]\<rparr>)"
    by simp_all
  from T [THEN conjunct2, THEN conjunct1]
  have c: "tt_download ex_lib ex_meta (FilesList [''missing.csv'', ''data.tsv'']) ex_state =
     try_except (download_loop ex_lib [ex_file ''data.tsv''] [])
        (\<lambda>e. bnd (py_print (Msg_error_downloading_files e)) (\<lambda>_. ret []))
        (ex_state\<lparr>log := log ex_state @ [Print (Msg_warning_not_found ''missing.csv'')]\<rparr>)"
    by (simp add: List.map_filter_simps named_def ex_file_def del: download_loop.simps)
  from T [THEN conjunct2, THEN conjunct2] ex_selected
  have d: "fst (tt_download ex_lib ex_meta (FilesList [''missing.csv'', ''data.tsv'']) ex_state) =
     Inr [(''data'', ex_table_cd)]"
    by (simp add: named_def ex_file_def)
  from f(1) a b c d show ?thesis by blast
qed

end
